theory Spec2Isabelle
  imports Complex_Main
begin

section \<open>Python strings and scalar cell values\<close>

text \<open>
  A Python \<open>str\<close> is modelled as a \<open>string\<close> whose characters are code points below 256;
  the character classes below are the ones Python assigns to these code points.
\<close>

definition is_space :: "char \<Rightarrow> bool" where
  \<comment> \<open>\<open>str.isspace\<close>, also the class \<open>\s\<close> of \<open>re\<close>\<close>
  "is_space c = (let n = (of_char c :: nat) in
     (9 \<le> n \<and> n \<le> 13) \<or> (28 \<le> n \<and> n \<le> 32) \<or> n = 133 \<or> n = 160)"

definition is_digit :: "char \<Rightarrow> bool" where
  \<comment> \<open>the class \<open>\d\<close> of \<open>re\<close>\<close>
  "is_digit c = (let n = (of_char c :: nat) in 48 \<le> n \<and> n \<le> 57)"

definition is_upper :: "char \<Rightarrow> bool" where
  "is_upper c = (let n = (of_char c :: nat) in
     (65 \<le> n \<and> n \<le> 90) \<or> (192 \<le> n \<and> n \<le> 222 \<and> n \<noteq> 215))"

definition is_ascii_lower :: "char \<Rightarrow> bool" where
  "is_ascii_lower c = (let n = (of_char c :: nat) in 97 \<le> n \<and> n \<le> 122)"

definition is_word_char :: "char \<Rightarrow> bool" where
  \<comment> \<open>the class \<open>\w\<close> of \<open>re\<close>: alphanumeric characters and the underscore\<close>
  "is_word_char c = (let n = (of_char c :: nat) in
     (48 \<le> n \<and> n \<le> 57) \<or> (65 \<le> n \<and> n \<le> 90) \<or> n = 95 \<or> (97 \<le> n \<and> n \<le> 122) \<or>
     n = 170 \<or> n = 178 \<or> n = 179 \<or> n = 181 \<or> n = 185 \<or> n = 186 \<or>
     (188 \<le> n \<and> n \<le> 190) \<or> (192 \<le> n \<and> n \<noteq> 215 \<and> n \<noteq> 247))"

definition lower_char :: "char \<Rightarrow> char" where
  "lower_char c = (if is_upper c then char_of ((of_char c :: nat) + 32) else c)"

definition upper_char :: "char \<Rightarrow> char" where
  \<comment> \<open>upper case of the ASCII letters, all that \<open>title\<close> below is applied to\<close>
  "upper_char c = (if is_ascii_lower c then char_of ((of_char c :: nat) - 32) else c)"

definition lower :: "string \<Rightarrow> string" where
  "lower s = map lower_char s"

definition strip :: "string \<Rightarrow> string" where
  "strip s = rev (dropWhile is_space (rev (dropWhile is_space s)))"

fun startswith :: "string \<Rightarrow> string \<Rightarrow> bool" where
  "startswith s [] = True"
| "startswith [] (p # ps) = False"
| "startswith (c # s) (p # ps) = (c = p \<and> startswith s ps)"

definition endswith :: "string \<Rightarrow> string \<Rightarrow> bool" where
  "endswith s p = startswith (rev s) (rev p)"

fun contains :: "string \<Rightarrow> string \<Rightarrow> bool" where
  \<comment> \<open>\<open>contains s p\<close> is Python's \<open>p in s\<close>\<close>
  "contains [] p = (p = [])"
| "contains (c # s) p = (startswith (c # s) p \<or> contains s p)"

definition replace_char :: "char \<Rightarrow> string \<Rightarrow> string \<Rightarrow> string" where
  \<comment> \<open>\<open>s.replace(c, r)\<close> for a single character \<open>c\<close>\<close>
  "replace_char c r s = concat (map (\<lambda>x. if x = c then r else [x]) s)"

fun join :: "string \<Rightarrow> string list \<Rightarrow> string" where
  "join sep [] = []"
| "join sep [x] = x"
| "join sep (x # y # ys) = x @ sep @ join sep (y # ys)"

fun title_from :: "bool \<Rightarrow> string \<Rightarrow> string" where
  \<comment> \<open>\<open>str.title\<close>; the flag says whether the previous character was a letter\<close>
  "title_from prev [] = []"
| "title_from prev (c # cs) =
     (if is_upper c \<or> is_ascii_lower c
      then (if prev then lower_char c else upper_char c) # title_from True cs
      else c # title_from False cs)"

definition title :: "string \<Rightarrow> string" where
  "title s = title_from False s"

fun show_nat :: "nat \<Rightarrow> string" where
  "show_nat n = (if n < 10 then [char_of (48 + n)] else show_nat (n div 10) @ [char_of (48 + n mod 10)])"

declare show_nat.simps [simp del]

definition show_int :: "int \<Rightarrow> string" where
  "show_int i = (if i < 0 then CHR ''-'' # show_nat (nat (- i)) else show_nat (nat i))"

definition zfill :: "nat \<Rightarrow> string \<Rightarrow> string" where
  "zfill k s = replicate (k - length s) CHR ''0'' @ s"

fun digits_value :: "nat \<Rightarrow> string \<Rightarrow> nat" where
  \<comment> \<open>\<open>int(s)\<close> for a string of decimal digits, most significant first\<close>
  "digits_value acc [] = acc"
| "digits_value acc (c # cs) = digits_value (10 * acc + ((of_char c :: nat) - 48)) cs"

text \<open>
  A float is either finite, with its exact rational value, or one of \<open>inf\<close>, \<open>-inf\<close>, \<open>nan\<close>.
  A cell read from a worksheet is \<open>None\<close>, a string, a number, a boolean, a date or a datetime.
\<close>

datatype pyfloat = Finite rat | NonFinite

datatype cell =
    CNone
  | CStr string
  | CInt int
  | CBool bool
  | CFloat pyfloat
  | CDate int nat nat
  | CDateTime int nat nat nat nat nat nat

definition truthy :: "cell \<Rightarrow> bool" where
  "truthy v = (case v of
       CNone \<Rightarrow> False
     | CStr s \<Rightarrow> s \<noteq> []
     | CInt i \<Rightarrow> i \<noteq> 0
     | CBool b \<Rightarrow> b
     | CFloat f \<Rightarrow> f \<noteq> Finite 0
     | CDate y m d \<Rightarrow> True
     | CDateTime y m d hh mm ss us \<Rightarrow> True)"

definition is_integer :: "pyfloat \<Rightarrow> bool" where
  "is_integer f = (case f of Finite r \<Rightarrow> r = of_int \<lfloor>r\<rfloor> | NonFinite \<Rightarrow> False)"

definition int_of_float :: "pyfloat \<Rightarrow> string + int" where
  \<comment> \<open>\<open>int(f)\<close> truncates towards zero and raises on \<open>inf\<close> and \<open>nan\<close>\<close>
  "int_of_float f = (case f of
       Finite r \<Rightarrow> Inr (if 0 \<le> r then \<lfloor>r\<rfloor> else \<lceil>r\<rceil>)
     | NonFinite \<Rightarrow> Inl ''cannot convert float to integer'')"

definition date_str :: "int \<Rightarrow> nat \<Rightarrow> nat \<Rightarrow> string" where
  "date_str y m d = zfill 4 (show_int y) @ ''-'' @ zfill 2 (show_nat m) @ ''-'' @ zfill 2 (show_nat d)"

definition time_str :: "nat \<Rightarrow> nat \<Rightarrow> nat \<Rightarrow> nat \<Rightarrow> string" where
  "time_str hh mm ss us =
     zfill 2 (show_nat hh) @ '':'' @ zfill 2 (show_nat mm) @ '':'' @ zfill 2 (show_nat ss) @
     (if us = 0 then [] else ''.'' @ zfill 6 (show_nat us))"


definition newline :: char where
  "newline = CHR 0x0A"

definition paren_tail_ok :: "string \<Rightarrow> bool" where
  \<comment> \<open>the text after an opening parenthesis matches \<open>.*\)$\<close>: no line break up to a closing
      parenthesis that ends the string, or that stands before its final line break\<close>
  "paren_tail_ok t =
     (let u = (if t \<noteq> [] \<and> last t = newline then butlast t else t)
      in u \<noteq> [] \<and> last u = CHR '')'' \<and> newline \<notin> set (butlast u))"

fun sub_parenthetical :: "string \<Rightarrow> string" where
  \<comment> \<open>\<open>re.sub(r"\s*\(.*\)$", "", s)\<close>: the leftmost match is removed\<close>
  "sub_parenthetical [] = []"
| "sub_parenthetical (c # cs) =
     (let r = dropWhile is_space (c # cs)
      in if r \<noteq> [] \<and> hd r = CHR ''('' \<and> paren_tail_ok (tl r)
         then (if last (c # cs) = newline then [newline] else [])
         else c # sub_parenthetical cs)"

definition clean_header :: "string \<Rightarrow> string" where
  "clean_header h = replace_char CHR '' '' [] (lower (sub_parenthetical (strip h)))"

section \<open>Error codes and their labels\<close>

definition ERROR_CODE_LABELS :: "(string \<times> string) list" where
  "ERROR_CODE_LABELS =
    [(''LINK_NOT_FOUND'', ''Data Not Found''),
     (''INVALID_YEAR_RANGE'', ''Invalid Year Range''),
     (''REQUIRED_FIELD_EMPTY'', ''Required Field Empty''),
     (''INVALID_INT'', ''Must Be a Number''),
     (''DUPLICATE_ROW'', ''Duplicate Row''),
     (''EMPTY_ROW'', ''Empty Row''),
     (''INVALID_FLOAT'', ''Must Be a Decimal Number''),
     (''INVALID_DATE'', ''Invalid Date''),
     (''INVALID_DATETIME'', ''Invalid Date/Time''),
     (''INVALID_YEAR'', ''Invalid Year Format''),
     (''INVALID_TEXT'', ''Invalid Text Format''),
     (''INVALID_SELECT'', ''Invalid Selection''),
     (''INVALID_LINK'', ''Invalid Link''),
     (''DUPLICATE_PRIMARY_KEY'', ''Duplicate ID''),
     (''DUPLICATE_UNIQUE'', ''Duplicate Value''),
     (''NO_FILE'', ''No File Uploaded''),
     (''INVALID_FILE_TYPE'', ''Invalid File Type (Use .xlsx)''),
     (''FILE_TOO_LARGE'', ''File Too Large''),
     (''PASSWORD_PROTECTED'', ''Password Protected File''),
     (''UNREADABLE_FILE'', ''Corrupted File''),
     (''SHEET_NOT_FOUND'', ''Worksheet Not Found''),
     (''NO_HEADER'', ''Header Row Missing''),
     (''EMPTY_HEADERS'', ''Empty Header Row''),
     (''DUPLICATE_HEADERS'', ''Duplicate Headers''),
     (''NO_DATA_ROWS'', ''No Data Rows''),
     (''MISSING_REQUIRED_COLUMNS'', ''Missing Required Columns''),
     (''DOCTYPE_NOT_FOUND'', ''DocType Not Found''),
     (''NO_PERMISSION'', ''No Permission''),
     (''DOCTYPE_ERROR'', ''DocType Error''),
     (''LINK_CONFIG_ERROR'', ''Configuration Error''),
     (''INVALID_LINK_TYPE'', ''Invalid Link Type''),
     (''LINK_DOCTYPE_NOT_FOUND'', ''Target Type Not Found''),
     (''LINK_PERMISSION_ERROR'', ''Permission Denied''),
     (''LINK_VALIDATION_ERROR'', ''Link Validation Error''),
     (''TIMEOUT_ERROR'', ''Processing Timeout'')]"

definition get_readable_error_code :: "string \<Rightarrow> string" where
  "get_readable_error_code code =
     (case map_of ERROR_CODE_LABELS code of
        Some l \<Rightarrow> l
      | None \<Rightarrow> replace_char CHR ''_'' '' '' code)"

definition get_formatted_error_type :: "string \<Rightarrow> string" where
  "get_formatted_error_type code =
     (case map_of ERROR_CODE_LABELS code of
        Some l \<Rightarrow> l
      | None \<Rightarrow> title (replace_char CHR ''_'' '' '' code))"

section \<open>Schema, backing store and process-wide state\<close>

text \<open>
  A field descriptor of the schema. An attribute that is \<open>None\<close> or absent is the empty
  string here: the program only ever tests these attributes for truth.
\<close>

record docfield =
  df_label :: string
  df_fieldname :: string
  df_fieldtype :: string
  df_reqd :: bool
  df_unique :: bool
  df_options :: string

type_synonym meta = "docfield list"

datatype db_query = QExists string string | QCount string | QGetAll string

text \<open>
  Everything the program reads from outside: the backing store and the schema provider
  (a call either raises, \<open>Inl\<close> with the exception's text, or answers), the library
  functions on floats and ISO dates that are not spelled out here, today's year, the
  order in which the process iterates a set of strings, and the clock. \<open>set_order w xs\<close>
  is the order in which a set built from the strings \<open>xs\<close>, inserted in this order, is
  iterated; Python derives it from the hashes of the strings, which depend on the hash seed
  of the process. \<open>elapsed_overall w i\<close> is the time since the start of the run when sheet number
  \<open>i\<close> is about to start; \<open>elapsed_sheet w i r\<close> is the time since the start of sheet
  \<open>i\<close> at the check of row index \<open>r\<close>.
\<close>

record world =
  db_exists :: "string \<Rightarrow> string \<Rightarrow> string + bool"
  db_count :: "string \<Rightarrow> string + int"
  db_get_all :: "string \<Rightarrow> string + string list"
  get_meta :: "string \<Rightarrow> string + meta"
  float_of_str :: "string \<Rightarrow> pyfloat option"
  float_str :: "pyfloat \<Rightarrow> string"
  iso_year :: "string \<Rightarrow> int option"
  today_year :: int
  set_order :: "string list \<Rightarrow> string list"
  elapsed_overall :: "nat \<Rightarrow> rat"
  elapsed_sheet :: "nat \<Rightarrow> nat \<Rightarrow> rat"

text \<open>
  The module globals \<open>_link_cache\<close> and \<open>_link_cache_sizes\<close>, the queries sent to the
  backing store so far, and the output workbook (its sheets in order, each a title and
  its rows).
\<close>

record state =
  link_cache :: "string \<rightharpoonup> string list"
  link_cache_sizes :: "string \<rightharpoonup> int"
  db_log :: "db_query list"
  wb_output :: "(string \<times> cell list list) list"

definition LINK_CACHE_LIMIT :: int where
  "LINK_CACHE_LIMIT = 5000"

definition SHEET_TIMEOUT :: rat where
  "SHEET_TIMEOUT = 60"

definition VALIDATION_TIMEOUT :: rat where
  "VALIDATION_TIMEOUT = 120"

definition py_str :: "world \<Rightarrow> cell \<Rightarrow> string" where
  "py_str w v = (case v of
       CNone \<Rightarrow> ''None''
     | CStr s \<Rightarrow> s
     | CInt i \<Rightarrow> show_int i
     | CBool b \<Rightarrow> (if b then ''True'' else ''False'')
     | CFloat f \<Rightarrow> float_str w f
     | CDate y m d \<Rightarrow> date_str y m d
     | CDateTime y m d hh mm ss us \<Rightarrow> date_str y m d @ '' '' @ time_str hh mm ss us)"

definition py_set :: "world \<Rightarrow> string list \<Rightarrow> string list" where
  \<comment> \<open>a Python set built from the strings \<open>xs\<close>, as the list of its elements in iteration
      order: the order of the process if that is an arrangement of the elements, which it is
      in Python, and the order of insertion otherwise\<close>
  "py_set w xs =
     (let ys = set_order w xs
      in if distinct ys \<and> set ys = set xs then ys else remdups xs)"

definition frappe_db_exists :: "world \<Rightarrow> string \<Rightarrow> string \<Rightarrow> state \<Rightarrow> (string + bool) \<times> state" where
  "frappe_db_exists w dt dn s = (db_exists w dt dn, s\<lparr>db_log := db_log s @ [QExists dt dn]\<rparr>)"

definition frappe_db_count :: "world \<Rightarrow> string \<Rightarrow> state \<Rightarrow> (string + int) \<times> state" where
  "frappe_db_count w dt s = (db_count w dt, s\<lparr>db_log := db_log s @ [QCount dt]\<rparr>)"

definition frappe_get_all :: "world \<Rightarrow> string \<Rightarrow> state \<Rightarrow> (string + string list) \<times> state" where
  "frappe_get_all w dt s = (db_get_all w dt, s\<lparr>db_log := db_log s @ [QGetAll dt]\<rparr>)"

section \<open>The tiered reference cache and the reference resolver\<close>

definition link_doctypes_of :: "world \<Rightarrow> meta \<Rightarrow> string list" where
  "link_doctypes_of w m =
     py_set w (map df_options (filter (\<lambda>df. df_fieldtype df = ''Link'' \<and> df_options df \<noteq> []) m))"

definition prefetch_one :: "world \<Rightarrow> string \<Rightarrow> state \<Rightarrow> state" where
  \<comment> \<open>one round of the loop of \<open>prefetch_link_caches\<close>; an exception ends the round\<close>
  "prefetch_one w linked_dt s =
     (case frappe_db_count w linked_dt s of
        (Inl e, s1) \<Rightarrow> s1
      | (Inr count, s1) \<Rightarrow>
          (let s2 = s1\<lparr>link_cache_sizes := (link_cache_sizes s1)(linked_dt \<mapsto> count)\<rparr>
           in if count > LINK_CACHE_LIMIT then s2
              else (case frappe_get_all w linked_dt s2 of
                      (Inl e, s3) \<Rightarrow> s3
                    | (Inr names, s3) \<Rightarrow>
                        s3\<lparr>link_cache := (link_cache s3)(linked_dt \<mapsto> py_set w names)\<rparr>)))"

fun prefetch_loop :: "world \<Rightarrow> string list \<Rightarrow> state \<Rightarrow> state" where
  "prefetch_loop w [] s = s"
| "prefetch_loop w (t # ts) s = prefetch_loop w ts (prefetch_one w t s)"

definition prefetch_link_caches :: "world \<Rightarrow> string \<Rightarrow> meta option \<Rightarrow> state \<Rightarrow> state" where
  "prefetch_link_caches w doctype meta_opt s =
     (case (case meta_opt of
              Some m \<Rightarrow> Some m
            | None \<Rightarrow> (case get_meta w doctype of Inl e \<Rightarrow> None | Inr m \<Rightarrow> Some m)) of
        None \<Rightarrow> s
      | Some m \<Rightarrow> prefetch_loop w (link_doctypes_of w m) s)"

definition link_exists_populate ::
  "world \<Rightarrow> string \<Rightarrow> string \<Rightarrow> state \<Rightarrow> bool option \<times> state" where
  \<comment> \<open>the inner \<open>try\<close> of \<open>link_exists\<close>: \<open>Some b\<close> when it returns \<open>b\<close>, \<open>None\<close> when it
      has filled the cache and control goes on to the lookup\<close>
  "link_exists_populate w doctype name s =
     (case frappe_db_count w doctype s of
        (Inl e, s1) \<Rightarrow> (Some False, s1)
      | (Inr count, s1) \<Rightarrow>
          if count > LINK_CACHE_LIMIT
          then (let s2 = s1\<lparr>link_cache_sizes := (link_cache_sizes s1)(doctype \<mapsto> count)\<rparr>
                in case frappe_db_exists w doctype name s2 of
                     (Inl e, s3) \<Rightarrow> (Some False, s3)
                   | (Inr result, s3) \<Rightarrow> (Some result, s3))
          else (case frappe_get_all w doctype s1 of
                  (Inl e, s2) \<Rightarrow> (Some False, s2)
                | (Inr names, s2) \<Rightarrow>
                    (None, s2\<lparr>link_cache := (link_cache s2)(doctype \<mapsto> py_set w names)\<rparr>)))"

definition link_exists_lookup :: "state \<Rightarrow> string \<Rightarrow> string \<Rightarrow> bool \<Rightarrow> string + bool" where
  \<comment> \<open>the cache-based lookup; reading a missing cache entry raises \<open>KeyError\<close>\<close>
  "link_exists_lookup s doctype name case_sensitive =
     (case link_cache s doctype of
        None \<Rightarrow> Inl ''KeyError''
      | Some names \<Rightarrow>
          (let name_str = strip name
           in if case_sensitive then Inr (name_str \<in> set names)
              else Inr (list_ex (\<lambda>cached_name. lower cached_name = lower name_str) names)))"

definition link_exists_try ::
  "world \<Rightarrow> string \<Rightarrow> string \<Rightarrow> bool \<Rightarrow> state \<Rightarrow> (string + bool) \<times> state" where
  \<comment> \<open>the body of the outer \<open>try\<close> of \<open>link_exists\<close>\<close>
  "link_exists_try w doctype name case_sensitive s =
     (case frappe_db_exists w ''DocType'' doctype s of
        (Inl e, s1) \<Rightarrow> (Inl e, s1)
      | (Inr found, s1) \<Rightarrow>
          if \<not> found then (Inr False, s1)
          else if (case link_cache_sizes s1 doctype of None \<Rightarrow> False | Some n \<Rightarrow> n > LINK_CACHE_LIMIT)
          then frappe_db_exists w doctype (strip name) s1
          else if link_cache s1 doctype = None
          then (case link_exists_populate w doctype name s1 of
                  (Some b, s2) \<Rightarrow> (Inr b, s2)
                | (None, s2) \<Rightarrow> (link_exists_lookup s2 doctype name case_sensitive, s2))
          else (link_exists_lookup s1 doctype name case_sensitive, s1))"

definition link_exists ::
  "world \<Rightarrow> string \<Rightarrow> string \<Rightarrow> bool \<Rightarrow> state \<Rightarrow> (string + bool) \<times> state" where
  "link_exists w doctype name case_sensitive s =
     (if doctype = [] \<or> name = [] then (Inr False, s)
      else (case link_exists_try w doctype name case_sensitive s of
              (Inl e, s1) \<Rightarrow> (Inr False, s1)
            | (Inr b, s1) \<Rightarrow> (Inr b, s1)))"

fun suggestions_loop :: "string \<Rightarrow> nat \<Rightarrow> string list \<Rightarrow> string list \<Rightarrow> string list" where
  "suggestions_loop name_lower max_suggestions [] suggestions = suggestions"
| "suggestions_loop name_lower max_suggestions (cached_name # rest) suggestions =
     (if contains (lower cached_name) name_lower \<or> contains name_lower (lower cached_name)
      then (let suggestions' = suggestions @ [cached_name]
            in if length suggestions' \<ge> max_suggestions then suggestions'
               else suggestions_loop name_lower max_suggestions rest suggestions')
      else suggestions_loop name_lower max_suggestions rest suggestions)"

definition get_link_suggestions ::
  "world \<Rightarrow> string \<Rightarrow> string \<Rightarrow> nat \<Rightarrow> state \<Rightarrow> string list \<times> state" where
  "get_link_suggestions w doctype name max_suggestions s =
     (case (if link_cache s doctype = None
            then (case link_exists w doctype ''__init__'' False s of
                    (Inl e, s1) \<Rightarrow> (False, s1)
                  | (Inr b, s1) \<Rightarrow> (True, s1))
            else (True, s)) of
        (False, s1) \<Rightarrow> ([], s1)
      | (True, s1) \<Rightarrow>
          (case link_cache s1 doctype of
             None \<Rightarrow> ([], s1)
           | Some names \<Rightarrow> (suggestions_loop (lower name) max_suggestions names [], s1)))"

section \<open>Validation of one cell\<close>

record dt_error =
  e_row :: nat
  e_column :: string
  e_code :: string
  e_message :: string
  e_suggestions :: "string list option"

definition validate_link_field ::
  "world \<Rightarrow> docfield \<Rightarrow> cell \<Rightarrow> string \<Rightarrow> nat \<Rightarrow> bool \<Rightarrow> cell \<Rightarrow> state \<Rightarrow>
     (string + dt_error option) \<times> state" where
  "validate_link_field w df v label row_idx skip_link_validation original_value s =
     (if skip_link_validation \<or> \<not> truthy v then (Inr None, s)
      else (let linked_doctype = df_options df
            in if linked_doctype = []
               then (Inr (Some \<lparr>e_row = row_idx, e_column = label, e_code = ''LINK_CONFIG_ERROR'',
                                e_message = ''No target DocType'', e_suggestions = None\<rparr>), s)
               else (let value_str = strip (py_str w v)
                     in case frappe_db_exists w linked_doctype value_str s of
                          (Inl e, s1) \<Rightarrow> (Inl e, s1)
                        | (Inr found, s1) \<Rightarrow>
                            if found then (Inr None, s1)
                            else if (case link_cache s1 linked_doctype of
                                       None \<Rightarrow> False
                                     | Some existing \<Rightarrow>
                                         list_ex (\<lambda>x. lower (strip x) = lower value_str) existing)
                            then (Inr None, s1)
                            else (case get_link_suggestions w linked_doctype value_str 3 s1 of
                                    (suggestions, s2) \<Rightarrow>
                                      (Inr (Some \<lparr>e_row = row_idx, e_column = label,
                                                  e_code = ''LINK_NOT_FOUND'',
                                                  e_message = label @ '': '' @ [CHR 0x27] @
                                                    py_str w original_value @ [CHR 0x27] @
                                                    '' not found in '' @ linked_doctype,
                                                  e_suggestions = Some suggestions\<rparr>), s2)))))"

definition fullmatch_4digits :: "string \<Rightarrow> bool" where
  \<comment> \<open>\<open>re.fullmatch(r"\d{4}", s)\<close>\<close>
  "fullmatch_4digits s = (length s = 4 \<and> list_all is_digit s)"

definition fromisoformat_year :: "world \<Rightarrow> string \<Rightarrow> int option" where
  \<comment> \<open>\<open>datetime.fromisoformat(s).year\<close>, \<open>None\<close> when it raises. Every ISO format starts
      with the four digits of a year; what else the parser wants is left to \<open>iso_year\<close>.\<close>
  "fromisoformat_year w s =
     (if length s \<ge> 4 \<and> list_all is_digit (take 4 s) then iso_year w s else None)"

definition validate_year_value :: "world \<Rightarrow> cell \<Rightarrow> string + int option" where
  "validate_year_value w v = (case v of
       CDate y m d \<Rightarrow> Inr (Some y)
     | CDateTime y m d hh mm ss us \<Rightarrow> Inr (Some y)
     | CInt i \<Rightarrow> Inr (Some i)
     | CBool b \<Rightarrow> Inr (Some (if b then 1 else 0))
     | CFloat f \<Rightarrow> (case int_of_float f of Inl e \<Rightarrow> Inl e | Inr i \<Rightarrow> Inr (Some i))
     | CStr t \<Rightarrow>
         if fullmatch_4digits (strip t) then Inr (Some (int (digits_value 0 (strip t))))
         else Inr (fromisoformat_year w (py_str w v))
     | CNone \<Rightarrow> Inr (fromisoformat_year w (py_str w v)))"

definition optional_columns :: "string list" where
  "optional_columns =
     [''id'', ''institute'', ''notes'', ''description'', ''brief'', ''details'', ''remarks'', ''comments'']"

definition placeholders :: "string list" where
  \<comment> \<open>the tuple \<open>("", "NA", "N/A", "na", "n/a")\<close>\<close>
  "placeholders = [[], ''NA'', ''N/A'', ''na'', ''n/a'']"

definition in_blank_tuple :: "cell \<Rightarrow> bool" where
  \<comment> \<open>\<open>v in (None, "", "NA", "N/A")\<close>\<close>
  "in_blank_tuple v = (v = CNone \<or> v = CStr [] \<or> v = CStr ''NA'' \<or> v = CStr ''N/A'')"

definition DummyField :: docfield where
  "DummyField = \<lparr>df_label = [], df_fieldname = ''year'', df_fieldtype = ''Int'',
                  df_reqd = False, df_unique = False, df_options = []\<rparr>"

definition mk_error :: "nat \<Rightarrow> string \<Rightarrow> string \<Rightarrow> string \<Rightarrow> dt_error" where
  "mk_error row_idx label code message =
     \<lparr>e_row = row_idx, e_column = label, e_code = code, e_message = message, e_suggestions = None\<rparr>"

definition quoted :: "string \<Rightarrow> string" where
  "quoted t = [CHR 0x27] @ t @ [CHR 0x27]"

definition is_valid_int :: "world \<Rightarrow> cell \<Rightarrow> bool" where
  "is_valid_int w v = (case v of
       CInt i \<Rightarrow> True
     | CBool b \<Rightarrow> True
     | CFloat f \<Rightarrow> is_integer f
     | CStr t \<Rightarrow> (case float_of_str w (strip t) of Some num_val \<Rightarrow> is_integer num_val | None \<Rightarrow> False)
     | _ \<Rightarrow> False)"

definition is_valid_float :: "world \<Rightarrow> cell \<Rightarrow> bool" where
  "is_valid_float w v = (case v of
       CInt i \<Rightarrow> True
     | CBool b \<Rightarrow> True
     | CFloat f \<Rightarrow> True
     | CStr t \<Rightarrow> float_of_str w (strip t) \<noteq> None
     | _ \<Rightarrow> False)"

definition numeric_date_checks :: "world \<Rightarrow> string \<Rightarrow> string \<Rightarrow> nat \<Rightarrow> cell \<Rightarrow> dt_error list" where
  \<comment> \<open>the last \<open>if\<close>/\<open>elif\<close> chain of the loop body of \<open>validate_datatypes\<close>\<close>
  "numeric_date_checks w ft label row_idx v =
     (if ft = ''Int'' \<or> ft = ''Check''
      then (if \<not> is_valid_int w v
            then [mk_error row_idx label ''INVALID_INT'' (quoted (py_str w v) @ '' is not a valid number'')]
            else [])
      else if ft = ''Float'' \<or> ft = ''Currency'' \<or> ft = ''Percent''
      then (if \<not> is_valid_float w v
            then [mk_error row_idx label ''INVALID_FLOAT'' (quoted (py_str w v) @ '' is not a valid number'')]
            else [])
      else if ft = ''Date''
      then (case v of
              CDate y m d \<Rightarrow> []
            | CDateTime y m d hh mm ss us \<Rightarrow> []
            | _ \<Rightarrow> [mk_error row_idx label ''INVALID_DATE'' ''Invalid date format''])
      else if ft = ''Datetime''
      then (case v of
              CDateTime y m d hh mm ss us \<Rightarrow> []
            | _ \<Rightarrow> [mk_error row_idx label ''INVALID_DATETIME'' ''Invalid datetime format''])
      else [])"

definition link_and_type_checks ::
  "world \<Rightarrow> docfield \<Rightarrow> string \<Rightarrow> nat \<Rightarrow> bool \<Rightarrow> cell \<Rightarrow> dt_error list \<Rightarrow> state \<Rightarrow>
     (string + dt_error list) \<times> state" where
  \<comment> \<open>the loop body of \<open>validate_datatypes\<close> from \<open># Link validation\<close> on; \<open>errs\<close> are the
      errors this cell already has\<close>
  "link_and_type_checks w df label row_idx skip_link_validation v errs s =
     (if df_fieldtype df = ''Link''
      then (case validate_link_field w df v label row_idx skip_link_validation v s of
              (Inl e, s1) \<Rightarrow> (Inl e, s1)
            | (Inr None, s1) \<Rightarrow> (Inr errs, s1)
            | (Inr (Some link_err), s1) \<Rightarrow> (Inr (errs @ [link_err]), s1))
      else (Inr (errs @ numeric_date_checks w (df_fieldtype df) label row_idx v), s))"

definition is_year_by_name :: "string \<Rightarrow> bool" where
  "is_year_by_name label = (contains (lower label) ''year'' \<and> length label < 15)"

definition lookup_field :: "(string \<times> docfield) list \<Rightarrow> string \<Rightarrow> string \<Rightarrow> docfield option" where
  \<comment> \<open>\<open>field_map.get(key)\<close>, with the fallback for a year column that the map does not have\<close>
  "lookup_field field_map key label =
     (case map_of field_map key of
        Some df \<Rightarrow> Some df
      | None \<Rightarrow> (if is_year_by_name label then Some DummyField else None))"

definition is_year_field :: "string \<Rightarrow> docfield \<Rightarrow> string \<Rightarrow> bool" where
  "is_year_field key df label =
     (key = ''year'' \<or> endswith key ''_year'' \<or> df_fieldname df = ''year'' \<or> is_year_by_name label)"

definition is_optional :: "string \<Rightarrow> bool" where
  "is_optional label =
     (clean_header label \<in> set optional_columns \<or> startswith (lower label) ''id '')"

definition validate_cell ::
  "world \<Rightarrow> (string \<times> docfield) list \<Rightarrow> nat \<Rightarrow> bool \<Rightarrow> string \<Rightarrow> cell \<Rightarrow> state \<Rightarrow>
     (string + dt_error list) \<times> state" where
  \<comment> \<open>one round of the loop of \<open>validate_datatypes\<close>: the errors it appends\<close>
  "validate_cell w field_map row_idx skip_link_validation label v s =
     (let key = clean_header label;
          str_val = (if v \<noteq> CNone then strip (py_str w v) else [])
      in if str_val \<in> set placeholders
         then (Inr (if \<not> is_optional label
                    then [mk_error row_idx label ''REQUIRED_FIELD_EMPTY''
                            (''Field '' @ quoted label @ '' is empty'')]
                    else []), s)
         else (case lookup_field field_map key label of
                 None \<Rightarrow> (Inr [], s)
               | Some df \<Rightarrow>
                   if is_year_field key df label
                   then (case validate_year_value w v of
                           Inl e \<Rightarrow> (Inl e, s)
                         | Inr None \<Rightarrow>
                             (Inr [mk_error row_idx label ''INVALID_YEAR''
                                     (''Invalid year: '' @ py_str w v)], s)
                         | Inr (Some y) \<Rightarrow>
                             (let errs =
                                (if \<not> (1900 \<le> y \<and> y \<le> today_year w + 1)
                                 then [mk_error row_idx label ''INVALID_YEAR_RANGE''
                                         (''Year '' @ show_int y @ '' out of allowed range 1900-'' @
                                          show_int (today_year w + 1))]
                                 else [])
                              in if df_fieldtype df \<noteq> ''Link'' then (Inr errs, s)
                                 else link_and_type_checks w df label row_idx
                                        skip_link_validation v errs s))
                   else link_and_type_checks w df label row_idx skip_link_validation v [] s))"

fun validate_datatypes_loop ::
  "world \<Rightarrow> (string \<times> docfield) list \<Rightarrow> nat \<Rightarrow> bool \<Rightarrow> (string \<times> cell) list \<Rightarrow> dt_error list \<Rightarrow>
     state \<Rightarrow> (string + dt_error list) \<times> state" where
  "validate_datatypes_loop w field_map row_idx skip [] errors s = (Inr errors, s)"
| "validate_datatypes_loop w field_map row_idx skip ((label, v) # items) errors s =
     (case validate_cell w field_map row_idx skip label v s of
        (Inl e, s1) \<Rightarrow> (Inl e, s1)
      | (Inr errs, s1) \<Rightarrow> validate_datatypes_loop w field_map row_idx skip items (errors @ errs) s1)"

section \<open>Field maps and column roles\<close>

fun word_search_from :: "bool \<Rightarrow> string list \<Rightarrow> string \<Rightarrow> bool" where
  \<comment> \<open>\<open>re.search(r"\b(w1|...|wn)\b", s)\<close> for words made of letters; the flag says whether
      the previous character is a word character\<close>
  "word_search_from prev words [] = False"
| "word_search_from prev words (c # cs) =
     ((\<not> prev \<and>
       list_ex (\<lambda>wd. startswith (c # cs) wd \<and>
                     (let rest = drop (length wd) (c # cs)
                      in rest = [] \<or> \<not> is_word_char (hd rest))) words)
      \<or> word_search_from (is_word_char c) words cs)"

definition header_fieldtype :: "string \<Rightarrow> string" where
  \<comment> \<open>the field type \<open>build_field_map\<close> gives a header when the schema has no fields\<close>
  "header_fieldtype h =
     (let key = clean_header h; h_lower = lower h
      in if key = ''year'' then ''Int''
         else if contains h_lower ''date'' then ''Date''
         else if word_search_from False
                   [''financial'', ''budget'', ''amount'', ''cost'', ''price'', ''rate''] h_lower
         then (if contains h_lower ''rate'' \<or> contains h_lower ''price'' \<or> contains h_lower ''financial''
               then ''Currency'' else ''Float'')
         else if word_search_from False
                   [''count'', ''total'', ''value'', ''qty'', ''quantity'', ''ranking'', ''index'',
                    ''strength'', ''position'', ''vacant'', ''ratio'', ''currency''] h_lower
         then (if contains h_lower ''&'' \<or> contains h_lower ''title'' \<or> contains h_lower ''case'' \<or>
                  contains h_lower ''name''
               then ''Data'' else ''Float'')
         else ''Data'')"

definition field_map_add :: "docfield \<Rightarrow> (string \<times> docfield) list \<Rightarrow> (string \<times> docfield) list" where
  \<comment> \<open>one round of the first loop of \<open>build_field_map\<close>; the dictionary is an association
      list whose first entry for a key is the current one\<close>
  "field_map_add df field_map =
     (let fm1 = (if df_label df \<noteq> [] then (clean_header (df_label df), df) # field_map else field_map)
      in if df_fieldname df \<noteq> [] \<and> map_of fm1 (clean_header (df_fieldname df)) = None
         then (clean_header (df_fieldname df), df) # fm1
         else fm1)"

definition SimpleField :: "string \<Rightarrow> docfield" where
  "SimpleField h =
     \<lparr>df_label = h, df_fieldname = clean_header h, df_fieldtype = header_fieldtype h,
      df_reqd = False, df_unique = False, df_options = []\<rparr>"

definition build_field_map :: "meta \<Rightarrow> string list \<Rightarrow> (string \<times> docfield) list" where
  "build_field_map m headers =
     (let field_map = foldl (\<lambda>fm df. field_map_add df fm) [] m
      in if field_map = [] \<and> headers \<noteq> []
         then foldl (\<lambda>fm h. (clean_header h, SimpleField h) # fm) [] headers
         else field_map)"

definition headers_norm :: "string list \<Rightarrow> (string \<times> string) list" where
  \<comment> \<open>\<open>{clean_header(h): h for h in headers}\<close>: a later header replaces an earlier one\<close>
  "headers_norm headers = rev (map (\<lambda>h. (clean_header h, h)) headers)"

definition column_of_field :: "(string \<times> string) list \<Rightarrow> docfield \<Rightarrow> string option" where
  \<comment> \<open>the header a field is found under: by its label, else by its field name\<close>
  "column_of_field hn df =
     (let label_norm = (if df_label df \<noteq> [] then clean_header (df_label df) else []);
          fname_norm = (if df_fieldname df \<noteq> [] then clean_header (df_fieldname df) else [])
      in case map_of hn label_norm of
           Some h \<Rightarrow> Some h
         | None \<Rightarrow> map_of hn fname_norm)"

definition get_required_columns :: "string list \<Rightarrow> meta \<Rightarrow> string list" where
  \<comment> \<open>the loop of \<open>process_sheet_with_validation\<close> that fills \<open>required_columns\<close>\<close>
  "get_required_columns headers m =
     concat (map (\<lambda>df. if df_reqd df \<and>
                          df_fieldtype df \<notin> {''Section Break'', ''Column Break'', ''Tab Break''}
                       then (case column_of_field (headers_norm headers) df of
                               Some h \<Rightarrow> [h] | None \<Rightarrow> [])
                       else []) m)"

definition get_unique_columns :: "string \<Rightarrow> string list \<Rightarrow> meta \<Rightarrow> string list" where
  "get_unique_columns doctype headers m =
     concat (map (\<lambda>df. if df_unique df
                       then (case column_of_field (headers_norm headers) df of
                               Some h \<Rightarrow> [h] | None \<Rightarrow> [])
                       else []) m)"

fun get_primary_key_loop :: "(string \<times> string) list \<Rightarrow> meta \<Rightarrow> string option" where
  "get_primary_key_loop hn [] = None"
| "get_primary_key_loop hn (df # rest) =
     (if df_fieldname df = ''name''
      then (case map_of hn (if df_label df \<noteq> [] then clean_header (df_label df) else []) of
              Some h \<Rightarrow> Some h
            | None \<Rightarrow> (case map_of hn ''name'' of
                         Some h \<Rightarrow> Some h
                       | None \<Rightarrow> get_primary_key_loop hn rest))
      else get_primary_key_loop hn rest)"

definition get_primary_key :: "string \<Rightarrow> string list \<Rightarrow> meta \<Rightarrow> string option" where
  "get_primary_key doctype headers m = get_primary_key_loop (headers_norm headers) m"

section \<open>Validation of one row\<close>

record json_error =
  je_sheet :: string
  je_row :: nat
  je_column :: string
  je_code :: string
  je_message :: string
  je_value_entered :: string
  je_error_type :: string
  je_suggestions :: "string list option"

text \<open>The three duplicate-detection sets of a sheet.\<close>

record tracker =
  seen_rows :: "string list set"
  seen_unique :: "string \<Rightarrow> string set"
  seen_primary :: "string set"

text \<open>What the loop body collects for one row; \<open>json_errors\<close> are the entries this row
  appends to the sheet's error list.\<close>

record row_acc =
  short_errors :: "string list"
  detailed_errors :: "string list"
  failed_columns :: "string set"
  json_errors :: "json_error list"

text \<open>What is fixed for a sheet once its header and schema are read.\<close>

record sheet_ctx =
  cx_doctype :: string
  cx_headers :: "string list"
  cx_skip_links :: bool
  cx_field_map :: "(string \<times> docfield) list"
  cx_required_columns :: "string list"
  cx_unique_columns :: "string list"
  cx_primary_key :: "string option"

definition empty_acc :: row_acc where
  "empty_acc = \<lparr>short_errors = [], detailed_errors = [], failed_columns = {}, json_errors = []\<rparr>"

definition dict_get :: "(string \<times> cell) list \<Rightarrow> string \<Rightarrow> cell" where
  \<comment> \<open>\<open>row_dict.get(col)\<close>\<close>
  "dict_get row_dict col = (case map_of row_dict col of Some v \<Rightarrow> v | None \<Rightarrow> CNone)"

definition is_empty_row :: "world \<Rightarrow> (string \<times> cell) list \<Rightarrow> bool" where
  "is_empty_row w row_dict =
     list_all (\<lambda>v. v = CNone \<or> strip (py_str w v) \<in> set placeholders) (map snd row_dict)"

definition empty_row_acc :: "string \<Rightarrow> nat \<Rightarrow> row_acc" where
  "empty_row_acc doctype row_idx =
     \<lparr>short_errors = [''Empty row''],
      detailed_errors = [''Row is completely empty''],
      failed_columns = {},
      json_errors = [\<lparr>je_sheet = doctype, je_row = row_idx, je_column = ''Entire Row'',
                      je_code = ''Empty Row'', je_message = ''Row is completely empty'',
                      je_value_entered = [], je_error_type = ''Empty Row'',
                      je_suggestions = None\<rparr>]\<rparr>"

definition required_error :: "string \<Rightarrow> nat \<Rightarrow> string \<Rightarrow> json_error" where
  "required_error doctype row_idx col =
     \<lparr>je_sheet = doctype, je_row = row_idx, je_column = col,
      je_code = get_readable_error_code ''REQUIRED_FIELD_EMPTY'',
      je_message = ''Required field '' @ quoted col @ '' is empty'', je_value_entered = [],
      je_error_type = get_formatted_error_type ''REQUIRED_FIELD_EMPTY'',
      je_suggestions = None\<rparr>"

definition required_step :: "string \<Rightarrow> nat \<Rightarrow> (string \<times> cell) list \<Rightarrow> string \<Rightarrow> row_acc \<Rightarrow> row_acc" where
  \<comment> \<open>one round of the loop over \<open>required_columns\<close>\<close>
  "required_step doctype row_idx row_dict col acc =
     (if in_blank_tuple (dict_get row_dict col)
      then \<lparr>short_errors = short_errors acc @ [col @ '': Required field empty''],
            detailed_errors = detailed_errors acc @ [''Required field '' @ quoted col @ '' is empty''],
            failed_columns = insert col (failed_columns acc),
            json_errors = json_errors acc @ [required_error doctype row_idx col]\<rparr>
      else acc)"

definition suggestions_of :: "dt_error \<Rightarrow> string list" where
  \<comment> \<open>\<open>err.get("suggestions", [])\<close>\<close>
  "suggestions_of err = (case e_suggestions err of Some l \<Rightarrow> l | None \<Rightarrow> [])"

definition err_object :: "world \<Rightarrow> string \<Rightarrow> nat \<Rightarrow> (string \<times> cell) list \<Rightarrow> dt_error \<Rightarrow> json_error" where
  "err_object w doctype row_idx row_dict err =
     (let col = e_column err;
          val_entered = (if col \<noteq> []
                         then (let v = dict_get row_dict col in if v \<noteq> CNone then py_str w v else [])
                         else [])
      in \<lparr>je_sheet = doctype, je_row = row_idx, je_column = col,
          je_code = get_readable_error_code (e_code err), je_message = e_message err,
          je_value_entered = val_entered,
          je_error_type = get_formatted_error_type (e_code err),
          je_suggestions = (if suggestions_of err \<noteq> [] then Some (suggestions_of err) else None)\<rparr>)"

definition dtype_step :: "world \<Rightarrow> string \<Rightarrow> nat \<Rightarrow> (string \<times> cell) list \<Rightarrow> dt_error \<Rightarrow> row_acc \<Rightarrow> row_acc" where
  \<comment> \<open>one round of the loop over \<open>dtype_errors\<close>\<close>
  "dtype_step w doctype row_idx row_dict err acc =
     (let col = e_column err;
          raw_msg = e_message err;
          readable_code = strip (get_readable_error_code (e_code err));
          suggestions = suggestions_of err;
          detail_msg = (if suggestions \<noteq> [] then raw_msg @ '' Suggest: '' @ join '', '' suggestions
                        else raw_msg)
      in \<lparr>short_errors = short_errors acc @ [if col \<noteq> [] then col @ '': '' @ readable_code else readable_code],
          detailed_errors = detailed_errors acc @ [if col \<noteq> [] then col @ '': '' @ detail_msg else detail_msg],
          failed_columns = (if col \<noteq> [] then insert col (failed_columns acc) else failed_columns acc),
          json_errors = json_errors acc @ [err_object w doctype row_idx row_dict err]\<rparr>)"

definition row_signature :: "world \<Rightarrow> (string \<times> cell) list \<Rightarrow> string list" where
  \<comment> \<open>\<open>row_values\<close>, the normalized tuple of the duplicate row check\<close>
  "row_signature w row_dict =
     map (\<lambda>v. if \<not> in_blank_tuple v then py_str w v else []) (map snd row_dict)"

definition duplicate_row_error :: "string \<Rightarrow> nat \<Rightarrow> json_error" where
  "duplicate_row_error doctype row_idx =
     \<lparr>je_sheet = doctype, je_row = row_idx, je_column = ''Entire Row'',
      je_code = get_readable_error_code ''DUPLICATE_ROW'',
      je_message = ''This row is a duplicate of a previous row'',
      je_value_entered = ''Row Data'',
      je_error_type = get_formatted_error_type ''DUPLICATE_ROW'',
      je_suggestions = None\<rparr>"

definition duplicate_row_step ::
  "world \<Rightarrow> string \<Rightarrow> nat \<Rightarrow> (string \<times> cell) list \<Rightarrow> tracker \<times> row_acc \<Rightarrow> tracker \<times> row_acc" where
  "duplicate_row_step w doctype row_idx row_dict ta =
     (case ta of (tr, acc) \<Rightarrow>
        (let row_values = row_signature w row_dict;
             acc' = (if row_values \<noteq> [] \<and> row_values \<in> seen_rows tr
                     then acc\<lparr>short_errors := short_errors acc @ [''Duplicate row''],
                              detailed_errors := detailed_errors acc @ [''Duplicate row''],
                              json_errors := json_errors acc @ [duplicate_row_error doctype row_idx]\<rparr>
                     else acc)
         in (tr\<lparr>seen_rows := insert row_values (seen_rows tr)\<rparr>, acc')))"

definition duplicate_value_error ::
  "world \<Rightarrow> string \<Rightarrow> string \<Rightarrow> nat \<Rightarrow> string \<Rightarrow> string \<Rightarrow> cell \<Rightarrow> json_error" where
  \<comment> \<open>the entry of the primary-key check and of the unique-column check, which differ in the
      code and in the message\<close>
  "duplicate_value_error w err_code doctype row_idx col msg val =
     \<lparr>je_sheet = doctype, je_row = row_idx, je_column = col,
      je_code = get_readable_error_code err_code, je_message = msg,
      je_value_entered = py_str w val,
      je_error_type = get_formatted_error_type err_code,
      je_suggestions = None\<rparr>"

definition primary_key_step ::
  "world \<Rightarrow> string \<Rightarrow> nat \<Rightarrow> (string \<times> cell) list \<Rightarrow> string option \<Rightarrow> tracker \<times> row_acc \<Rightarrow>
     tracker \<times> row_acc" where
  "primary_key_step w doctype row_idx row_dict primary_key ta =
     (case ta of (tr, acc) \<Rightarrow>
        (case primary_key of
           None \<Rightarrow> (tr, acc)
         | Some pk \<Rightarrow>
             if pk = [] then (tr, acc)
             else (let pk_val = dict_get row_dict pk
                   in if truthy pk_val \<and> \<not> in_blank_tuple pk_val
                      then (let pk_str = strip (py_str w pk_val);
                                msg = pk @ '': Duplicate ID ('' @ py_str w pk_val @ '')'';
                                acc' = (if pk_str \<in> seen_primary tr
                                        then \<lparr>short_errors = short_errors acc @ [pk @ '': Duplicate ID''],
                                              detailed_errors = detailed_errors acc @ [msg],
                                              failed_columns = insert pk (failed_columns acc),
                                              json_errors = json_errors acc @
                                                [duplicate_value_error w ''DUPLICATE_PRIMARY_KEY''
                                                   doctype row_idx pk msg pk_val]\<rparr>
                                        else acc)
                            in (tr\<lparr>seen_primary := insert pk_str (seen_primary tr)\<rparr>, acc'))
                      else (tr, acc))))"

definition unique_step ::
  "world \<Rightarrow> string \<Rightarrow> nat \<Rightarrow> (string \<times> cell) list \<Rightarrow> string \<Rightarrow> tracker \<times> row_acc \<Rightarrow> tracker \<times> row_acc" where
  \<comment> \<open>one round of the loop over \<open>unique_columns\<close>\<close>
  "unique_step w doctype row_idx row_dict col ta =
     (case ta of (tr, acc) \<Rightarrow>
        (let val = dict_get row_dict col
         in if truthy val \<and> \<not> in_blank_tuple val
            then (let val_str = strip (py_str w val);
                      msg = col @ '': Duplicate value ('' @ py_str w val @ '')'';
                      acc' = (if val_str \<in> seen_unique tr col
                              then \<lparr>short_errors = short_errors acc @ [col @ '': Duplicate value''],
                                    detailed_errors = detailed_errors acc @ [msg],
                                    failed_columns = insert col (failed_columns acc),
                                    json_errors = json_errors acc @
                                      [duplicate_value_error w ''DUPLICATE_UNIQUE''
                                         doctype row_idx col msg val]\<rparr>
                              else acc)
                  in (tr\<lparr>seen_unique := (seen_unique tr)(col := insert val_str (seen_unique tr col))\<rparr>, acc'))
            else (tr, acc)))"

definition output_row :: "string list \<Rightarrow> (string \<times> cell) list \<Rightarrow> row_acc \<Rightarrow> cell list" where
  \<comment> \<open>\<open>output_row_data\<close>: the error flag, the error count, the details, then the cells\<close>
  "output_row headers row_dict acc =
     (let has_error = (length (short_errors acc) > 0);
          error_count = length (short_errors acc);
          error_val = (if has_error then ''Error'' else ''No Error'');
          detail_val = (if detailed_errors acc \<noteq> [] then join ''; '' (detailed_errors acc) else ''No Error'')
      in [CStr error_val, CInt (int error_count), CStr detail_val] @ map (dict_get row_dict) headers)"

definition ws_append :: "cell list \<Rightarrow> state \<Rightarrow> state" where
  \<comment> \<open>\<open>ws_output.append(row)\<close> on the sheet created last\<close>
  "ws_append r s =
     (case rev (wb_output s) of
        [] \<Rightarrow> s
      | (t, rows) # earlier \<Rightarrow> s\<lparr>wb_output := rev earlier @ [(t, rows @ [r])]\<rparr>)"

definition validate_row ::
  "world \<Rightarrow> sheet_ctx \<Rightarrow> tracker \<Rightarrow> nat \<Rightarrow> (string \<times> cell) list \<Rightarrow> state \<Rightarrow>
     (string + tracker \<times> row_acc) \<times> state" where
  \<comment> \<open>the checks of the loop body of \<open>process_sheet_with_validation\<close>, up to \<open># Write row\<close>\<close>
  "validate_row w cx tr row_idx row_dict s =
     (if is_empty_row w row_dict then (Inr (tr, empty_row_acc (cx_doctype cx) row_idx), s)
      else (let acc1 = foldl (\<lambda>acc col. required_step (cx_doctype cx) row_idx row_dict col acc)
                         empty_acc (cx_required_columns cx)
            in case validate_datatypes_loop w (cx_field_map cx) row_idx (cx_skip_links cx) row_dict [] s of
                 (Inl e, s1) \<Rightarrow> (Inl e, s1)
               | (Inr dtype_errors, s1) \<Rightarrow>
                   (let acc2 = foldl (\<lambda>acc err. dtype_step w (cx_doctype cx) row_idx row_dict err acc)
                                 acc1 dtype_errors;
                        ta3 = duplicate_row_step w (cx_doctype cx) row_idx row_dict (tr, acc2);
                        ta4 = primary_key_step w (cx_doctype cx) row_idx row_dict (cx_primary_key cx) ta3;
                        ta5 = foldl (\<lambda>ta col. unique_step w (cx_doctype cx) row_idx row_dict col ta)
                                ta4 (cx_unique_columns cx)
                    in (Inr ta5, s1))))"

definition process_row ::
  "world \<Rightarrow> sheet_ctx \<Rightarrow> tracker \<Rightarrow> nat \<Rightarrow> cell list \<Rightarrow> state \<Rightarrow>
     (string + tracker \<times> row_acc) \<times> state" where
  "process_row w cx tr row_idx row s =
     (let row_dict = zip (cx_headers cx) row
      in case validate_row w cx tr row_idx row_dict s of
           (Inl e, s1) \<Rightarrow> (Inl e, s1)
         | (Inr (tr', acc), s1) \<Rightarrow>
             (Inr (tr', acc), ws_append (output_row (cx_headers cx) row_dict acc) s1))"

section \<open>The sheet processor\<close>

datatype exn = ValidationTimeout string | Exception string

record sheet_result =
  sr_sheet_name :: string
  sr_success :: bool
  sr_error :: "string option"
  sr_message :: "string option"
  sr_error_count :: nat
  sr_total_rows :: nat
  sr_json_errors :: "json_error list"

definition create_error_sheet :: "string \<Rightarrow> string \<Rightarrow> string \<Rightarrow> state \<Rightarrow> sheet_result \<times> state" where
  "create_error_sheet sheet_name error_code error_message s =
     (\<lparr>sr_sheet_name = sheet_name, sr_success = False, sr_error = Some error_code,
       sr_message = Some error_message, sr_error_count = 1, sr_total_rows = 0,
       sr_json_errors =
         [\<lparr>je_sheet = sheet_name, je_row = 0, je_column = ''Sheet'',
           je_code = get_readable_error_code error_code, je_message = error_message,
           je_value_entered = [], je_error_type = get_formatted_error_type error_code,
           je_suggestions = None\<rparr>]\<rparr>,
      s\<lparr>wb_output := wb_output s @ [(sheet_name, [[CStr ''ERROR'', CStr error_message]])]\<rparr>)"

fun rows_loop ::
  "world \<Rightarrow> sheet_ctx \<Rightarrow> (nat \<Rightarrow> rat) \<Rightarrow> nat \<Rightarrow> cell list list \<Rightarrow> tracker \<Rightarrow> json_error list \<Rightarrow> nat \<Rightarrow>
     state \<Rightarrow> (exn + json_error list \<times> nat) \<times> state" where
  \<comment> \<open>the loop over \<open>all_rows\<close>; \<open>elapsed r\<close> is the time since \<open>start_time\<close> at the check of
      row index \<open>r\<close>. It returns the sheet's error list and the number of rows in error.\<close>
  "rows_loop w cx elapsed row_idx [] tr errs total_errors s = (Inr (errs, total_errors), s)"
| "rows_loop w cx elapsed row_idx (row # rows) tr errs total_errors s =
     (if row_idx mod 100 = 0 \<and> elapsed row_idx > SHEET_TIMEOUT
      then (Inl (ValidationTimeout (''Sheet '' @ cx_doctype cx @ '' timeout'')), s)
      else (case process_row w cx tr row_idx row s of
              (Inl e, s1) \<Rightarrow> (Inl (Exception e), s1)
            | (Inr (tr', acc), s1) \<Rightarrow>
                rows_loop w cx elapsed (Suc row_idx) rows tr' (errs @ json_errors acc)
                  (if length (short_errors acc) > 0 then total_errors + 1 else total_errors) s1))"

definition empty_tracker :: tracker where
  "empty_tracker = \<lparr>seen_rows = {}, seen_unique = (\<lambda>c. {}), seen_primary = {}\<rparr>"

definition sheet_key_of :: "string \<Rightarrow> string" where
  \<comment> \<open>\<open>s.lower().replace(" ", "")\<close>\<close>
  "sheet_key_of n = replace_char CHR '' '' [] (lower n)"

definition read_headers :: "world \<Rightarrow> cell list \<Rightarrow> string list" where
  \<comment> \<open>\<open>[str(h).strip() for h in header_row if h]\<close>\<close>
  "read_headers w header_row = map (\<lambda>h. strip (py_str w h)) (filter truthy header_row)"

definition process_sheet_body ::
  "world \<Rightarrow> string \<Rightarrow> bool \<Rightarrow> (nat \<Rightarrow> rat) \<Rightarrow> string list \<Rightarrow> cell list list \<Rightarrow> meta \<Rightarrow> state \<Rightarrow>
     (exn + sheet_result) \<times> state" where
  \<comment> \<open>\<open>process_sheet_with_validation\<close> from the prefetch on, inside its \<open>try\<close>\<close>
  "process_sheet_body w doctype skip_links elapsed headers all_rows m s =
     (let s1 = (if \<not> skip_links then prefetch_link_caches w doctype (Some m) s else s);
          cx = \<lparr>cx_doctype = doctype, cx_headers = headers, cx_skip_links = skip_links,
                cx_field_map = build_field_map m headers,
                cx_required_columns = get_required_columns headers m,
                cx_unique_columns = get_unique_columns doctype headers m,
                cx_primary_key = get_primary_key doctype headers m\<rparr>;
          valid_rows = filter (list_ex (\<lambda>c. c \<noteq> CNone \<and> strip (py_str w c) \<noteq> [])) all_rows
      in if valid_rows = []
         then (case create_error_sheet doctype ''NO_DATA_ROWS'' ''The file contains no data rows.'' s1 of
                 (r, s2) \<Rightarrow> (Inr r, s2))
         else (case rows_loop w cx elapsed 2 all_rows empty_tracker [] 0 s1 of
                 (Inl e, s2) \<Rightarrow> (Inl e, s2)
               | (Inr (errs, total_errors), s2) \<Rightarrow>
                   (Inr \<lparr>sr_sheet_name = doctype, sr_success = True, sr_error = None,
                         sr_message = None, sr_error_count = length errs,
                         sr_total_rows = length all_rows, sr_json_errors = errs\<rparr>, s2)))"

definition process_sheet_try ::
  "world \<Rightarrow> (string \<times> cell list list) list \<Rightarrow> string \<Rightarrow> bool \<Rightarrow> (nat \<Rightarrow> rat) \<Rightarrow> state \<Rightarrow>
     (exn + sheet_result) \<times> state" where
  \<comment> \<open>the body of the \<open>try\<close> of \<open>process_sheet_with_validation\<close>; the input workbook is the
      list of its sheets, each a name and its rows\<close>
  "process_sheet_try w wb_input doctype skip_links elapsed s =
     (let err = (\<lambda>code msg st. case create_error_sheet doctype code msg st of (r, st') \<Rightarrow> (Inr r, st'));
          sheet_map = rev (map (\<lambda>n. (sheet_key_of n, n)) (map fst wb_input))
      in case map_of sheet_map (sheet_key_of doctype) of
           None \<Rightarrow> err ''SHEET_NOT_FOUND'' (''Worksheet '' @ quoted doctype @ '' not found.'') s
         | Some sheet_name \<Rightarrow>
             (case map_of wb_input sheet_name of
                None \<Rightarrow> (Inl (Exception (''Worksheet '' @ sheet_name @ '' does not exist.'')), s)
              | Some sheet_input \<Rightarrow>
                  (case sheet_input of
                     [] \<Rightarrow> err ''NO_HEADER'' ''Header row missing'' s
                   | header_row # all_rows \<Rightarrow>
                       if header_row = [] then err ''NO_HEADER'' ''Header row missing'' s
                       else (let headers = read_headers w header_row
                             in if headers = []
                                then err ''EMPTY_HEADERS'' ''The header row is empty or the sheet is blank.'' s
                                else if list_ex (\<lambda>h. h = CNone \<or> strip (py_str w h) = []) header_row
                                then err ''EMPTY_HEADERS''
                                       ''The header row contains blank cells between columns.'' s
                                else if length headers \<noteq> card (set headers)
                                then err ''DUPLICATE_HEADERS''
                                       ''The header row contains duplicate column names.'' s
                                else (let new_headers = [''Error Detected'', ''No. of Error'', ''DetailsMessage'']
                                                         @ headers;
                                          s1 = s\<lparr>wb_output := wb_output s @ [(doctype, [map CStr new_headers])]\<rparr>
                                      in case get_meta w doctype of
                                           Inl e \<Rightarrow> err ''DOCTYPE_ERROR'' ''Failed to load DocType metadata'' s1
                                         | Inr m \<Rightarrow>
                                             process_sheet_body w doctype skip_links elapsed headers
                                               all_rows m s1)))))"

definition process_sheet_with_validation ::
  "world \<Rightarrow> (string \<times> cell list list) list \<Rightarrow> string \<Rightarrow> bool \<Rightarrow> (nat \<Rightarrow> rat) \<Rightarrow> state \<Rightarrow>
     (exn + sheet_result) \<times> state" where
  "process_sheet_with_validation w wb_input doctype skip_links elapsed s =
     (case process_sheet_try w wb_input doctype skip_links elapsed s of
        (Inl (ValidationTimeout m), s1) \<Rightarrow> (Inl (ValidationTimeout m), s1)
      | (Inl (Exception e), s1) \<Rightarrow>
          (case create_error_sheet doctype ''PROCESSING_ERROR'' (''Unexpected error: '' @ e) s1 of
             (r, s2) \<Rightarrow> (Inr r, s2))
      | (Inr r, s1) \<Rightarrow> (Inr r, s1))"

section \<open>The batch coordinator\<close>

record overall_stats =
  total_sheets :: nat
  validated_sheets :: nat
  total_errors :: nat
  total_rows :: nat
  sheet_results :: "sheet_result list"
  all_json_errors :: "json_error list"

record response =
  structure_valid :: bool
  rs_total_sheets :: nat
  rs_validated_sheets :: nat
  rs_total_errors :: nat
  rs_total_rows :: nat
  rs_errors :: "json_error list"
  rs_sheet_results :: "sheet_result list"

definition check_doctype_exists :: "world \<Rightarrow> string \<Rightarrow> state \<Rightarrow> bool \<times> state" where
  "check_doctype_exists w doctype_name s =
     (case frappe_db_exists w ''DocType'' doctype_name s of
        (Inl e, s1) \<Rightarrow> (False, s1)
      | (Inr b, s1) \<Rightarrow> (b, s1))"

definition sheet_step ::
  "world \<Rightarrow> (string \<times> cell list list) list \<Rightarrow> bool \<Rightarrow> nat \<Rightarrow> string \<Rightarrow> overall_stats \<Rightarrow> state \<Rightarrow>
     overall_stats \<times> state" where
  \<comment> \<open>one round of the loop over the sheets, after its timeout check\<close>
  "sheet_step w wb_input skip_links sheet_idx sheet_name stats s =
     (case check_doctype_exists w sheet_name s of
        (doctype_exists, s1) \<Rightarrow>
          if \<not> doctype_exists
          then (case create_error_sheet sheet_name ''DOCTYPE_NOT_FOUND''
                       (''DocType '' @ quoted sheet_name @ '' not found in Frappe'') s1 of
                  (r, s2) \<Rightarrow>
                    (stats\<lparr>sheet_results := sheet_results stats @ [r],
                           all_json_errors := all_json_errors stats @ sr_json_errors r\<rparr>, s2))
          else (case process_sheet_with_validation w wb_input sheet_name skip_links
                       (elapsed_sheet w sheet_idx) s1 of
                  (Inr r, s2) \<Rightarrow>
                    (stats\<lparr>sheet_results := sheet_results stats @ [r],
                           all_json_errors := all_json_errors stats @ sr_json_errors r,
                           validated_sheets := (if sr_success r then validated_sheets stats + 1
                                                else validated_sheets stats),
                           total_errors := total_errors stats + sr_error_count r,
                           total_rows := total_rows stats + sr_total_rows r\<rparr>, s2)
                | (Inl (ValidationTimeout m), s2) \<Rightarrow>
                    (case create_error_sheet sheet_name ''TIMEOUT_ERROR''
                            ''Sheet processing exceeded 60s timeout'' s2 of
                       (r, s3) \<Rightarrow> (stats\<lparr>sheet_results := sheet_results stats @ [r]\<rparr>, s3))
                | (Inl (Exception e), s2) \<Rightarrow>
                    (case create_error_sheet sheet_name ''PROCESSING_ERROR'' (''Error: '' @ e) s2 of
                       (r, s3) \<Rightarrow> (stats\<lparr>sheet_results := sheet_results stats @ [r]\<rparr>, s3))))"

fun sheets_loop ::
  "world \<Rightarrow> (string \<times> cell list list) list \<Rightarrow> bool \<Rightarrow> nat \<Rightarrow> string list \<Rightarrow> overall_stats \<Rightarrow> state \<Rightarrow>
     overall_stats \<times> state" where
  "sheets_loop w wb_input skip_links sheet_idx [] stats s = (stats, s)"
| "sheets_loop w wb_input skip_links sheet_idx (sheet_name # rest) stats s =
     (if elapsed_overall w sheet_idx > VALIDATION_TIMEOUT then (stats, s)
      else (case sheet_step w wb_input skip_links sheet_idx sheet_name stats s of
              (stats', s1) \<Rightarrow> sheets_loop w wb_input skip_links (Suc sheet_idx) rest stats' s1))"

definition validate_and_add_error_columns ::
  "world \<Rightarrow> (string \<times> cell list list) list \<Rightarrow> string \<Rightarrow> state \<Rightarrow> response \<times> state" where
  \<comment> \<open>steps 3 and 4 of the function and its final response, for a workbook that has been
      read; the checks of the upload and the saving of the output file are left out\<close>
  "validate_and_add_error_columns w wb_input skip_link_validation s =
     (let skip_links = (skip_link_validation = ''1'');
          stats0 = \<lparr>total_sheets = length wb_input, validated_sheets = 0, total_errors = 0,
                    total_rows = 0, sheet_results = [], all_json_errors = []\<rparr>
      in case sheets_loop w wb_input skip_links 1 (map fst wb_input) stats0 (s\<lparr>wb_output := []\<rparr>) of
           (stats, s1) \<Rightarrow>
             (\<lparr>structure_valid = (total_errors stats = 0),
               rs_total_sheets = total_sheets stats,
               rs_validated_sheets = validated_sheets stats,
               rs_total_errors = total_errors stats,
               rs_total_rows = total_rows stats,
               rs_errors = all_json_errors stats,
               rs_sheet_results = sheet_results stats\<rparr>, s1))"

section \<open>Observations on the store\<close>

definition query_raises :: "world \<Rightarrow> db_query \<Rightarrow> bool" where
  \<comment> \<open>the store answers this query with an exception\<close>
  "query_raises w q = (case q of
       QExists dt dn \<Rightarrow> isl (db_exists w dt dn)
     | QCount dt \<Rightarrow> isl (db_count w dt)
     | QGetAll dt \<Rightarrow> isl (db_get_all w dt))"

definition new_queries :: "state \<Rightarrow> state \<Rightarrow> db_query list" where
  \<comment> \<open>the queries sent between an earlier state and a later one\<close>
  "new_queries s s' = drop (length (db_log s)) (db_log s')"

definition dt_codes :: "string set" where
  \<comment> \<open>the error codes of \<open>validate_datatypes\<close>\<close>
  "dt_codes = {''REQUIRED_FIELD_EMPTY'', ''INVALID_YEAR'', ''INVALID_YEAR_RANGE'', ''LINK_CONFIG_ERROR'',
               ''LINK_NOT_FOUND'', ''INVALID_INT'', ''INVALID_FLOAT'', ''INVALID_DATE'', ''INVALID_DATETIME''}"

definition outcome_of :: "(string + tracker \<times> row_acc) \<times> state \<Rightarrow> (nat \<times> (string \<times> string) list) option" where
  \<comment> \<open>of a validated row: its error count, and the column and code of each of its errors\<close>
  "outcome_of r = (case fst r of
       Inl e \<Rightarrow> None
     | Inr (tr, acc) \<Rightarrow> Some (length (short_errors acc), map (\<lambda>e. (je_column e, je_code e)) (json_errors acc)))"

definition errors_of :: "(exn + json_error list \<times> nat) \<times> state \<Rightarrow> (nat \<times> string \<times> string) list option" where
  \<comment> \<open>of a finished row loop: the row, column and code of each error\<close>
  "errors_of r = (case fst r of
       Inl e \<Rightarrow> None
     | Inr (errs, n) \<Rightarrow> Some (map (\<lambda>e. (je_row e, je_column e, je_code e)) errs))"

definition timeout_at :: "(nat \<Rightarrow> rat) \<Rightarrow> nat \<Rightarrow> bool" where
  \<comment> \<open>the check of the row loop at row index \<open>r\<close> finds the sheet's time budget used up\<close>
  "timeout_at elapsed r = (r mod 100 = 0 \<and> elapsed r > SHEET_TIMEOUT)"

definition sheet_level_codes :: "string set" where
  \<comment> \<open>the error codes of the sheets that \<open>process_sheet_with_validation\<close> gives up on\<close>
  "sheet_level_codes = {''SHEET_NOT_FOUND'', ''NO_HEADER'', ''EMPTY_HEADERS'', ''DUPLICATE_HEADERS'',
                        ''DOCTYPE_ERROR'', ''NO_DATA_ROWS'', ''PROCESSING_ERROR''}"

definition sheet_outcome_ok :: "sheet_result \<Rightarrow> bool" where
  \<comment> \<open>the two shapes of a result of \<open>process_sheet_with_validation\<close>\<close>
  "sheet_outcome_ok r =
     (if sr_success r then sr_error r = None \<and> sr_error_count r = length (sr_json_errors r)
      else (\<exists>c \<in> sheet_level_codes. sr_error r = Some c) \<and> sr_error_count r = 1 \<and>
           length (sr_json_errors r) = 1 \<and> sr_total_rows r = 0)"

definition counted :: "sheet_result \<Rightarrow> bool" where
  \<comment> \<open>the sheet was neither of an unknown entity type nor timed out\<close>
  "counted r = (sr_error r \<noteq> Some ''DOCTYPE_NOT_FOUND'' \<and> sr_error r \<noteq> Some ''TIMEOUT_ERROR'')"

definition stats_ok :: "overall_stats \<Rightarrow> bool" where
  \<comment> \<open>what the loop over the sheets keeps true of its running totals\<close>
  "stats_ok st =
     (total_errors st = sum_list (map sr_error_count (filter counted (sheet_results st))) \<and>
      total_rows st = sum_list (map sr_total_rows (filter counted (sheet_results st))) \<and>
      (\<forall>r \<in> set (sheet_results st). \<not> counted r \<longrightarrow>
           \<not> sr_success r \<and> sr_error_count r = 1 \<and> length (sr_json_errors r) = 1) \<and>
      (\<forall>r \<in> set (sheet_results st). sr_error r = Some ''DOCTYPE_NOT_FOUND'' \<longrightarrow>
           set (sr_json_errors r) \<subseteq> set (all_json_errors st)))"

subsection \<open>The reference cache and the store\<close>

definition cache_consistent :: "world \<Rightarrow> state \<Rightarrow> bool" where
  \<comment> \<open>the reference cache holds nothing but what the store \<open>w\<close> answers: the name set of an
     entity type is the set built from the store's list of names, and is only kept for a type
     within the limit; a recorded size is the store's count\<close>
  "cache_consistent w s =
     (\<forall>t. (\<forall>names. link_cache s t = Some names \<longrightarrow>
              (\<exists>n l. db_count w t = Inr n \<and> n \<le> LINK_CACHE_LIMIT \<and> db_get_all w t = Inr l \<and>
                     names = py_set w l)) \<and>
          (\<forall>n. link_cache_sizes s t = Some n \<longrightarrow> db_count w t = Inr n))"






section \<open>Example inputs\<close>

text \<open>A world whose store knows the entity types Student and Country, with 6000 countries;
  the current year is 2025, sets are iterated in the order of insertion and the clock stands
  still.\<close>

definition example_world :: world where
  "example_world =
     \<lparr>db_exists = (\<lambda>dt dn. Inr (dt = ''DocType'' \<and> dn \<in> {''Student'', ''Country''})),
      db_count = (\<lambda>dt. if dt = ''Country'' then Inr 6000 else Inr 0),
      db_get_all = (\<lambda>dt. Inr []),
      get_meta = (\<lambda>dt. Inr []),
      float_of_str = (\<lambda>t. None),
      float_str = (\<lambda>f. ''nan''),
      iso_year = (\<lambda>t. None),
      today_year = 2025,
      set_order = remdups,
      elapsed_overall = (\<lambda>i. 0),
      elapsed_sheet = (\<lambda>i r. 0)\<rparr>"

definition empty_state :: state where
  "empty_state = \<lparr>link_cache = Map.empty, link_cache_sizes = Map.empty, db_log = [], wb_output = []\<rparr>"

text \<open>A reference field to Country, and a world whose store fails on every query.\<close>

definition country_field :: docfield where
  "country_field =
     \<lparr>df_label = ''Country'', df_fieldname = ''country'', df_fieldtype = ''Link'',
      df_reqd = False, df_unique = False, df_options = ''Country''\<rparr>"

definition failing_world :: world where
  "failing_world =
     example_world\<lparr>db_exists := (\<lambda>dt dn. Inl ''connection lost''),
                   db_count := (\<lambda>dt. Inl ''connection lost''),
                   db_get_all := (\<lambda>dt. Inl ''connection lost'')\<rparr>"

text \<open>The context of a sheet Student with the single column Name and a schema without fields.\<close>

definition name_ctx :: sheet_ctx where
  "name_ctx =
     \<lparr>cx_doctype = ''Student'', cx_headers = [''Name''], cx_skip_links = False,
      cx_field_map = build_field_map [] [''Name''],
      cx_required_columns = get_required_columns [''Name''] [],
      cx_unique_columns = get_unique_columns ''Student'' [''Name''] [],
      cx_primary_key = get_primary_key ''Student'' [''Name''] []\<rparr>"

text \<open>A schema of Student with a required field Email, and the context of a sheet with the
  columns Name and Email.\<close>

definition email_meta :: meta where
  "email_meta =
     [\<lparr>df_label = ''Name'', df_fieldname = ''student_name'', df_fieldtype = ''Data'',
       df_reqd = False, df_unique = False, df_options = []\<rparr>,
      \<lparr>df_label = ''Email'', df_fieldname = ''email'', df_fieldtype = ''Data'',
       df_reqd = True, df_unique = False, df_options = []\<rparr>]"

definition email_ctx :: sheet_ctx where
  "email_ctx =
     \<lparr>cx_doctype = ''Student'', cx_headers = [''Name'', ''Email''], cx_skip_links = False,
      cx_field_map = build_field_map email_meta [''Name'', ''Email''],
      cx_required_columns = get_required_columns [''Name'', ''Email''] email_meta,
      cx_unique_columns = get_unique_columns ''Student'' [''Name'', ''Email''] email_meta,
      cx_primary_key = get_primary_key ''Student'' [''Name'', ''Email''] email_meta\<rparr>"

text \<open>A world in which the budget of a sheet is used up when row index 100 is reached, and a
  workbook whose sheet Student has the column Name, the row "Ann" and then 98 blank rows.\<close>

definition timeout_world :: world where
  "timeout_world = example_world\<lparr>elapsed_sheet := (\<lambda>i r. if r \<ge> 100 then 61 else 0)\<rparr>"

definition timeout_wb :: "(string \<times> cell list list) list" where
  "timeout_wb = [(''Student'', [CStr ''Name''] # [CStr ''Ann''] # replicate 97 [CNone] @ [[CNone]])]"

text \<open>A workbook whose only sheet names an entity type that the store does not know.\<close>

definition planet_wb :: "(string \<times> cell list list) list" where
  "planet_wb = [(''Planet'', [[CStr ''Name''], [CStr ''Mars'']])]"








text \<open>A cache that still holds the names of Country from a time when the store had few
  countries.\<close>

definition stale_state :: state where
  "stale_state = empty_state\<lparr>link_cache := [''Country'' \<mapsto> [''Narnia Land'']]\<rparr>"


text \<open>The context of a sheet Student with the columns Name and Remarks and a schema without
  fields.\<close>

definition remarks_ctx :: sheet_ctx where
  "remarks_ctx =
     \<lparr>cx_doctype = ''Student'', cx_headers = [''Name'', ''Remarks''], cx_skip_links = False,
      cx_field_map = build_field_map [] [''Name'', ''Remarks''],
      cx_required_columns = get_required_columns [''Name'', ''Remarks''] [],
      cx_unique_columns = get_unique_columns ''Student'' [''Name'', ''Remarks''] [],
      cx_primary_key = get_primary_key ''Student'' [''Name'', ''Remarks''] []\<rparr>"

section \<open>Facts about strings\<close>










lemma set_py_set: "set (py_set w xs) = set xs"
  by (simp add: py_set_def Let_def)

lemma distinct_py_set: "distinct (py_set w xs)"
  by (simp add: py_set_def Let_def)

lemma py_set_insertion_order: "set_order w = remdups \<Longrightarrow> py_set w xs = remdups xs"
  by (simp add: py_set_def Let_def)

section \<open>Facts about the row checks\<close>

lemma validate_link_field_err:
  "validate_link_field w df v label row_idx skip ov s = (Inr (Some e), s') \<Longrightarrow>
     e_column e = label \<and> e_code e \<in> dt_codes"
  by (auto simp: validate_link_field_def Let_def dt_codes_def
      split: if_splits sum.splits prod.splits)

lemma numeric_date_checks_err:
  "e \<in> set (numeric_date_checks w ft label row_idx v) \<Longrightarrow> e_column e = label \<and> e_code e \<in> dt_codes"
  by (auto simp: numeric_date_checks_def mk_error_def dt_codes_def split: if_splits cell.splits)

lemma link_and_type_checks_err:
  "link_and_type_checks w df label row_idx skip v errs s = (Inr errs', s') \<Longrightarrow>
     \<forall>e \<in> set errs. e_column e = label \<and> e_code e \<in> dt_codes \<Longrightarrow>
     \<forall>e \<in> set errs'. e_column e = label \<and> e_code e \<in> dt_codes"
  by (auto simp: link_and_type_checks_def split: if_splits sum.splits prod.splits option.splits
      dest: validate_link_field_err numeric_date_checks_err)

lemma validate_cell_err:
  assumes "validate_cell w fm row_idx skip label v s = (Inr errs, s')"
  shows "\<forall>e \<in> set errs. e_column e = label \<and> e_code e \<in> dt_codes"
proof -
  have m: "\<And>c m. e_column (mk_error row_idx label c m) = label" "\<And>c m. e_code (mk_error row_idx label c m) = c"
    by (simp_all add: mk_error_def)
  show ?thesis using assms
    apply (simp add: validate_cell_def Let_def split: if_splits option.splits sum.splits)
    apply (auto simp: m dt_codes_def dest!: link_and_type_checks_err)
    done
qed

lemma validate_cell_blank:
  "v = CNone \<or> strip (py_str w v) \<in> set placeholders \<Longrightarrow>
   validate_cell w fm row_idx skip label v s =
     (Inr (if \<not> is_optional label
           then [mk_error row_idx label ''REQUIRED_FIELD_EMPTY'' (''Field '' @ quoted label @ '' is empty'')]
           else []), s)"
  by (auto simp: validate_cell_def Let_def placeholders_def)

lemma loop_append:
  "validate_datatypes_loop w fm row_idx skip items errs s = (Inr errs', s') \<Longrightarrow>
     \<exists>new. errs' = errs @ new \<and> (\<forall>e \<in> set new. e_column e \<in> fst ` set items \<and> e_code e \<in> dt_codes)"
proof (induction items arbitrary: errs s)
  case Nil
  then show ?case by simp
next
  case (Cons it items)
  obtain label v where it: "it = (label, v)" by (cases it)
  from Cons.prems it obtain e1 s1 where
    c: "validate_cell w fm row_idx skip label v s = (Inr e1, s1)"
    and r: "validate_datatypes_loop w fm row_idx skip items (errs @ e1) s1 = (Inr errs', s')"
    by (auto split: prod.splits sum.splits)
  from Cons.IH[OF r] obtain new where n: "errs' = (errs @ e1) @ new"
    "\<forall>e \<in> set new. e_column e \<in> fst ` set items \<and> e_code e \<in> dt_codes" by blast
  from validate_cell_err[OF c] n it show ?case
    by (intro exI[of _ "e1 @ new"]) auto
qed

lemma loop_column:
  assumes "validate_datatypes_loop w fm row_idx skip items errs s = (Inr errs', s')"
    and "distinct (map fst items)" and "(col, v) \<in> set items"
    and "v = CNone \<or> strip (py_str w v) \<in> set placeholders"
  shows "filter (\<lambda>e. e_column e = col) errs' =
         filter (\<lambda>e. e_column e = col) errs @
         (if \<not> is_optional col
          then [mk_error row_idx col ''REQUIRED_FIELD_EMPTY'' (''Field '' @ quoted col @ '' is empty'')]
          else [])"
  using assms
proof (induction items arbitrary: errs s)
  case Nil
  then show ?case by simp
next
  case (Cons it items)
  obtain label u where it: "it = (label, u)" by (cases it)
  from Cons.prems(1) it obtain e1 s1 where
    c: "validate_cell w fm row_idx skip label u s = (Inr e1, s1)"
    and r: "validate_datatypes_loop w fm row_idx skip items (errs @ e1) s1 = (Inr errs', s')"
    by (auto split: prod.splits sum.splits)
  show ?case
  proof (cases "label = col")
    case True
    with Cons.prems(2,3) it have uv: "u = v" and notin: "col \<notin> fst ` set items"
      by (auto simp: rev_image_eqI)
    from loop_append[OF r] obtain new where n: "errs' = (errs @ e1) @ new"
      "\<forall>e \<in> set new. e_column e \<in> fst ` set items" by blast
    with notin have "filter (\<lambda>e. e_column e = col) new = []"
      by (auto simp: filter_empty_conv)
    moreover from c True uv validate_cell_blank[OF Cons.prems(4), of fm row_idx skip col s]
    have "e1 = (if \<not> is_optional col
          then [mk_error row_idx col ''REQUIRED_FIELD_EMPTY'' (''Field '' @ quoted col @ '' is empty'')]
          else [])" by simp
    ultimately show ?thesis using n by (simp add: mk_error_def)
  next
    case False
    with Cons.prems it have mem: "(col, v) \<in> set items" and d: "distinct (map fst items)" by auto
    from validate_cell_err[OF c] False have "filter (\<lambda>e. e_column e = col) e1 = []"
      by (auto simp: filter_empty_conv)
    with Cons.IH[OF r d mem Cons.prems(4)] show ?thesis by simp
  qed
qed

lemma required_fold:
  "json_errors (foldl (\<lambda>acc col. required_step d r rd col acc) acc cols) =
     json_errors acc @ map (required_error d r) (filter (\<lambda>c. in_blank_tuple (dict_get rd c)) cols)
   \<and> length (short_errors (foldl (\<lambda>acc col. required_step d r rd col acc) acc cols)) =
     length (short_errors acc) + length (filter (\<lambda>c. in_blank_tuple (dict_get rd c)) cols)"
  by (induction cols arbitrary: acc) (auto simp: required_step_def)

lemma dtype_fold:
  "json_errors (foldl (\<lambda>acc err. dtype_step w d r rd err acc) acc errs) =
     json_errors acc @ map (err_object w d r rd) errs
   \<and> length (short_errors (foldl (\<lambda>acc err. dtype_step w d r rd err acc) acc errs)) =
     length (short_errors acc) + length errs"
  by (induction errs arbitrary: acc) (auto simp: dtype_step_def Let_def)

lemma duplicate_row_step_eq:
  "duplicate_row_step w d r rd (tr, acc) = (tr', acc') \<Longrightarrow>
     tr' = tr\<lparr>seen_rows := insert (row_signature w rd) (seen_rows tr)\<rparr> \<and>
     json_errors acc' = json_errors acc @
        (if row_signature w rd \<noteq> [] \<and> row_signature w rd \<in> seen_rows tr then [duplicate_row_error d r] else []) \<and>
     length (short_errors acc') = length (short_errors acc) +
        (if row_signature w rd \<noteq> [] \<and> row_signature w rd \<in> seen_rows tr then 1 else 0)"
  by (auto simp: duplicate_row_step_def Let_def)

lemma primary_key_step_eq:
  "primary_key_step w d r rd pk (tr, acc) = (tr', acc') \<Longrightarrow>
     seen_rows tr' = seen_rows tr \<and>
     (\<exists>new. json_errors acc' = json_errors acc @ new \<and>
        length (short_errors acc') = length (short_errors acc) + length new \<and>
        (\<forall>e \<in> set new. je_code e = ''Duplicate ID'' \<and> je_row e = r \<and>
             truthy (dict_get rd (je_column e)) \<and> \<not> in_blank_tuple (dict_get rd (je_column e))))"
  by (auto simp: primary_key_step_def Let_def duplicate_value_error_def get_readable_error_code_def
        ERROR_CODE_LABELS_def split: option.splits if_splits)

lemma unique_step_eq:
  "unique_step w d r rd col (tr, acc) = (tr', acc') \<Longrightarrow>
     seen_rows tr' = seen_rows tr \<and>
     (\<exists>new. json_errors acc' = json_errors acc @ new \<and>
        length (short_errors acc') = length (short_errors acc) + length new \<and>
        (\<forall>e \<in> set new. je_code e = ''Duplicate Value'' \<and> je_row e = r \<and>
             truthy (dict_get rd (je_column e)) \<and> \<not> in_blank_tuple (dict_get rd (je_column e))))"
  by (auto simp: unique_step_def Let_def duplicate_value_error_def get_readable_error_code_def
        ERROR_CODE_LABELS_def split: option.splits if_splits)

lemma unique_fold:
  "foldl (\<lambda>ta col. unique_step w d r rd col ta) (tr, acc) cols = (tr', acc') \<Longrightarrow>
     seen_rows tr' = seen_rows tr \<and>
     (\<exists>new. json_errors acc' = json_errors acc @ new \<and>
        length (short_errors acc') = length (short_errors acc) + length new \<and>
        (\<forall>e \<in> set new. je_code e = ''Duplicate Value'' \<and> je_row e = r \<and>
             truthy (dict_get rd (je_column e)) \<and> \<not> in_blank_tuple (dict_get rd (je_column e))))"
proof (induction cols arbitrary: tr acc)
  case Nil
  then show ?case by simp
next
  case (Cons c cols)
  obtain tr1 acc1 where s1: "unique_step w d r rd c (tr, acc) = (tr1, acc1)" by (cases "unique_step w d r rd c (tr, acc)")
  with Cons.prems have r: "foldl (\<lambda>ta col. unique_step w d r rd col ta) (tr1, acc1) cols = (tr', acc')" by simp
  from unique_step_eq[OF s1] obtain n1 where a: "seen_rows tr1 = seen_rows tr"
     "json_errors acc1 = json_errors acc @ n1" "length (short_errors acc1) = length (short_errors acc) + length n1"
     "\<forall>e \<in> set n1. je_code e = ''Duplicate Value'' \<and> je_row e = r \<and>
             truthy (dict_get rd (je_column e)) \<and> \<not> in_blank_tuple (dict_get rd (je_column e))" by blast
  from Cons.IH[OF r] obtain n2 where b: "seen_rows tr' = seen_rows tr1"
     "json_errors acc' = json_errors acc1 @ n2" "length (short_errors acc') = length (short_errors acc1) + length n2"
     "\<forall>e \<in> set n2. je_code e = ''Duplicate Value'' \<and> je_row e = r \<and>
             truthy (dict_get rd (je_column e)) \<and> \<not> in_blank_tuple (dict_get rd (je_column e))" by blast
  from a b show ?case by (intro conjI exI[of _ "n1 @ n2"]) auto
qed

lemma readable_dt_codes:
  "c \<in> dt_codes \<Longrightarrow> get_readable_error_code c \<noteq> ''Duplicate Row''"
  by (auto simp: dt_codes_def get_readable_error_code_def ERROR_CODE_LABELS_def)

lemma readable_consts:
  "get_readable_error_code ''REQUIRED_FIELD_EMPTY'' = ''Required Field Empty''"
  "get_readable_error_code ''DUPLICATE_ROW'' = ''Duplicate Row''"
  by (simp_all add: get_readable_error_code_def ERROR_CODE_LABELS_def)

lemma validate_row_shape:
  assumes "validate_row w cx tr r rd s = (Inr (tr', acc), s')" and "\<not> is_empty_row w rd"
  shows "\<exists>dts kerrs.
     validate_datatypes_loop w (cx_field_map cx) r (cx_skip_links cx) rd [] s = (Inr dts, s') \<and>
     json_errors acc =
       map (required_error (cx_doctype cx) r)
           (filter (\<lambda>c. in_blank_tuple (dict_get rd c)) (cx_required_columns cx)) @
       map (err_object w (cx_doctype cx) r rd) dts @
       (if row_signature w rd \<in> seen_rows tr then [duplicate_row_error (cx_doctype cx) r] else []) @
       kerrs \<and>
     (\<forall>e \<in> set kerrs. je_code e \<in> {''Duplicate ID'', ''Duplicate Value''} \<and> je_row e = r \<and>
         truthy (dict_get rd (je_column e)) \<and> \<not> in_blank_tuple (dict_get rd (je_column e))) \<and>
     seen_rows tr' = insert (row_signature w rd) (seen_rows tr) \<and>
     length (short_errors acc) = length (json_errors acc)"
proof -
  let ?d = "cx_doctype cx"
  from assms(2) have ne: "rd \<noteq> []" by (auto simp: is_empty_row_def)
  then have sig: "row_signature w rd \<noteq> []" by (simp add: row_signature_def)
  let ?acc1 = "foldl (\<lambda>acc col. required_step ?d r rd col acc) empty_acc (cx_required_columns cx)"
  from assms obtain dts where
    l: "validate_datatypes_loop w (cx_field_map cx) r (cx_skip_links cx) rd [] s = (Inr dts, s')"
    and fin: "(tr', acc) = foldl (\<lambda>ta col. unique_step w ?d r rd col ta)
        (primary_key_step w ?d r rd (cx_primary_key cx)
          (duplicate_row_step w ?d r rd
            (tr, foldl (\<lambda>acc err. dtype_step w ?d r rd err acc) ?acc1 dts)))
        (cx_unique_columns cx)"
    by (auto simp: validate_row_def Let_def split: prod.splits sum.splits)
  let ?acc2 = "foldl (\<lambda>acc err. dtype_step w ?d r rd err acc) ?acc1 dts"
  obtain tr3 acc3 where s3: "duplicate_row_step w ?d r rd (tr, ?acc2) = (tr3, acc3)"
    by (cases "duplicate_row_step w ?d r rd (tr, ?acc2)")
  obtain tr4 acc4 where s4: "primary_key_step w ?d r rd (cx_primary_key cx) (tr3, acc3) = (tr4, acc4)"
    by (cases "primary_key_step w ?d r rd (cx_primary_key cx) (tr3, acc3)")
  from fin s3 s4 have s5: "foldl (\<lambda>ta col. unique_step w ?d r rd col ta) (tr4, acc4) (cx_unique_columns cx) = (tr', acc)"
    by simp
  note r1 = required_fold[of ?d r rd empty_acc "cx_required_columns cx"]
  note r2 = dtype_fold[of w ?d r rd ?acc1 dts]
  note r3 = duplicate_row_step_eq[OF s3]
  from primary_key_step_eq[OF s4] obtain n4 where r4: "seen_rows tr4 = seen_rows tr3"
    "json_errors acc4 = json_errors acc3 @ n4" "length (short_errors acc4) = length (short_errors acc3) + length n4"
    "\<forall>e \<in> set n4. je_code e = ''Duplicate ID'' \<and> je_row e = r \<and>
             truthy (dict_get rd (je_column e)) \<and> \<not> in_blank_tuple (dict_get rd (je_column e))" by blast
  from unique_fold[OF s5] obtain n5 where r5: "seen_rows tr' = seen_rows tr4"
    "json_errors acc = json_errors acc4 @ n5" "length (short_errors acc) = length (short_errors acc4) + length n5"
    "\<forall>e \<in> set n5. je_code e = ''Duplicate Value'' \<and> je_row e = r \<and>
             truthy (dict_get rd (je_column e)) \<and> \<not> in_blank_tuple (dict_get rd (je_column e))" by blast
  have je: "json_errors acc =
       map (required_error ?d r) (filter (\<lambda>c. in_blank_tuple (dict_get rd c)) (cx_required_columns cx)) @
       map (err_object w ?d r rd) dts @
       (if row_signature w rd \<in> seen_rows tr then [duplicate_row_error ?d r] else []) @ (n4 @ n5)"
    using r1 r2 r3 r4(2) r5(2) sig by (simp add: empty_acc_def)
  have len: "length (short_errors acc) = length (json_errors acc)"
    using r1 r2 r3 r4(2,3) r5(2,3) sig by (simp add: empty_acc_def)
  have seen: "seen_rows tr' = insert (row_signature w rd) (seen_rows tr)"
    using r3 r4(1) r5(1) by simp
  have k: "\<forall>e \<in> set (n4 @ n5). je_code e \<in> {''Duplicate ID'', ''Duplicate Value''} \<and> je_row e = r \<and>
         truthy (dict_get rd (je_column e)) \<and> \<not> in_blank_tuple (dict_get rd (je_column e))"
    using r4(4) r5(4) by auto
  from l je k seen len show ?thesis by blast
qed

lemma validate_row_dup:
  assumes "validate_row w cx tr r rd s = (Inr (tr', acc), s')"
  shows "seen_rows tr' = (if is_empty_row w rd then seen_rows tr else insert (row_signature w rd) (seen_rows tr))"
    and "duplicate_row_error (cx_doctype cx) k \<in> set (json_errors acc) \<longleftrightarrow>
           k = r \<and> \<not> is_empty_row w rd \<and> row_signature w rd \<in> seen_rows tr"
proof -
  show "seen_rows tr' = (if is_empty_row w rd then seen_rows tr else insert (row_signature w rd) (seen_rows tr))"
  proof (cases "is_empty_row w rd")
    case True
    with assms show ?thesis by (simp add: validate_row_def)
  next
    case False
    with validate_row_shape[OF assms False] show ?thesis by auto
  qed
  show "duplicate_row_error (cx_doctype cx) k \<in> set (json_errors acc) \<longleftrightarrow>
           k = r \<and> \<not> is_empty_row w rd \<and> row_signature w rd \<in> seen_rows tr"
  proof (cases "is_empty_row w rd")
    case True
    with assms have "json_errors acc = json_errors (empty_row_acc (cx_doctype cx) r)"
      by (auto simp: validate_row_def)
    with True show ?thesis
      by (auto simp: empty_row_acc_def duplicate_row_error_def readable_consts)
  next
    case False
    from validate_row_shape[OF assms False] obtain dts kerrs where
      l: "validate_datatypes_loop w (cx_field_map cx) r (cx_skip_links cx) rd [] s = (Inr dts, s')"
      and je: "json_errors acc =
         map (required_error (cx_doctype cx) r)
             (filter (\<lambda>c. in_blank_tuple (dict_get rd c)) (cx_required_columns cx)) @
         map (err_object w (cx_doctype cx) r rd) dts @
         (if row_signature w rd \<in> seen_rows tr then [duplicate_row_error (cx_doctype cx) r] else []) @
         kerrs"
      and k: "\<forall>e \<in> set kerrs. je_code e \<in> {''Duplicate ID'', ''Duplicate Value''}"
      by blast
    from loop_append[OF l] have dc: "\<forall>e \<in> set dts. e_code e \<in> dt_codes" by auto
    have 1: "duplicate_row_error (cx_doctype cx) k \<notin>
               set (map (required_error (cx_doctype cx) r)
                     (filter (\<lambda>c. in_blank_tuple (dict_get rd c)) (cx_required_columns cx)))"
      by (auto simp: required_error_def duplicate_row_error_def readable_consts)
    have 2: "duplicate_row_error (cx_doctype cx) k \<notin> set (map (err_object w (cx_doctype cx) r rd) dts)"
    proof
      assume "duplicate_row_error (cx_doctype cx) k \<in> set (map (err_object w (cx_doctype cx) r rd) dts)"
      then obtain x where x: "x \<in> set dts" "duplicate_row_error (cx_doctype cx) k = err_object w (cx_doctype cx) r rd x"
        by auto
      from x(2) have "je_code (duplicate_row_error (cx_doctype cx) k) = je_code (err_object w (cx_doctype cx) r rd x)"
        by simp
      then have "get_readable_error_code (e_code x) = ''Duplicate Row''"
        by (simp add: err_object_def duplicate_row_error_def readable_consts Let_def)
      with readable_dt_codes dc x(1) show False by blast
    qed
    have 3: "duplicate_row_error (cx_doctype cx) k \<notin> set kerrs"
      using k by (auto simp: duplicate_row_error_def readable_consts)
    have 4: "duplicate_row_error (cx_doctype cx) k = duplicate_row_error (cx_doctype cx) r \<longleftrightarrow> k = r"
      by (auto simp: duplicate_row_error_def)
    from False je 1 2 3 4 show ?thesis by auto
  qed
qed

lemma flagged_Cons:
  "(\<exists>i<length (x # xs). k = r + i \<and> E ((x # xs) ! i) \<and>
       (S ((x # xs) ! i) \<in> A \<or> (\<exists>j<i. E ((x # xs) ! j) \<and> S ((x # xs) ! j) = S ((x # xs) ! i)))) \<longleftrightarrow>
   (k = r \<and> E x \<and> S x \<in> A) \<or>
   (\<exists>i<length xs. k = Suc r + i \<and> E (xs ! i) \<and>
       (S (xs ! i) \<in> (if E x then insert (S x) A else A) \<or> (\<exists>j<i. E (xs ! j) \<and> S (xs ! j) = S (xs ! i))))"
  by (simp add: Ex_less_Suc2) (auto; metis)

lemma process_row_validate:
  "process_row w cx tr r row s = (Inr (tr', acc), s') \<Longrightarrow>
     \<exists>s0. validate_row w cx tr r (zip (cx_headers cx) row) s = (Inr (tr', acc), s0)"
  by (auto simp: process_row_def Let_def split: prod.splits sum.splits)

lemma rows_loop_dup:
  assumes "rows_loop w cx elapsed r rows tr errs n s = (Inr (errs', n'), s')"
  shows "duplicate_row_error (cx_doctype cx) k \<in> set errs' \<longleftrightarrow>
         duplicate_row_error (cx_doctype cx) k \<in> set errs \<or>
         (\<exists>i<length rows. k = r + i \<and> \<not> is_empty_row w (zip (cx_headers cx) (rows ! i)) \<and>
            (row_signature w (zip (cx_headers cx) (rows ! i)) \<in> seen_rows tr \<or>
             (\<exists>j<i. \<not> is_empty_row w (zip (cx_headers cx) (rows ! j)) \<and>
                    row_signature w (zip (cx_headers cx) (rows ! j)) =
                    row_signature w (zip (cx_headers cx) (rows ! i)))))"
  using assms
proof (induction rows arbitrary: r tr errs n s)
  case Nil
  then show ?case by simp
next
  case (Cons row rows)
  from Cons.prems obtain tr1 acc s1 where
    p: "process_row w cx tr r row s = (Inr (tr1, acc), s1)"
    and l: "rows_loop w cx elapsed (Suc r) rows tr1 (errs @ json_errors acc)
              (if length (short_errors acc) > 0 then n + 1 else n) s1 = (Inr (errs', n'), s')"
    by (auto split: if_splits prod.splits sum.splits)
  from process_row_validate[OF p] obtain s0 where
    v: "validate_row w cx tr r (zip (cx_headers cx) row) s = (Inr (tr1, acc), s0)" by blast
  note d = validate_row_dup[OF v]
  have seen: "seen_rows tr1 = (if \<not> is_empty_row w (zip (cx_headers cx) row)
                then insert (row_signature w (zip (cx_headers cx) row)) (seen_rows tr) else seen_rows tr)"
    using d(1) by simp
  show ?case
    unfolding Cons.IH[OF l] seen
      flagged_Cons[where E = "\<lambda>x. \<not> is_empty_row w (zip (cx_headers cx) x)"
                     and S = "\<lambda>x. row_signature w (zip (cx_headers cx) x)"]
    using d(2)[of k] by auto
qed

lemma filter_eq_replicate: "filter (\<lambda>c. c = x) xs = replicate (count_list xs x) x"
  by (induction xs) auto

lemma dict_get_distinct:
  "distinct (map fst rd) \<Longrightarrow> (k, v) \<in> set rd \<Longrightarrow> dict_get rd k = v"
  by (simp add: dict_get_def)


lemma outcome_of_SomeD: "outcome_of r = Some x \<Longrightarrow> \<exists>tr acc s. r = (Inr (tr, acc), s)"
  by (cases r) (auto simp: outcome_of_def split: sum.splits prod.splits)

lemma errors_of_SomeD: "errors_of r = Some x \<Longrightarrow> \<exists>errs n s. r = (Inr (errs, n), s)"
  by (cases r) (auto simp: errors_of_def split: sum.splits prod.splits)

lemma name_ctx_eval:
  "name_ctx = \<lparr>cx_doctype = ''Student'', cx_headers = [''Name''], cx_skip_links = False,
      cx_field_map = [(''name'', \<lparr>df_label = ''Name'', df_fieldname = ''name'', df_fieldtype = ''Data'',
          df_reqd = False, df_unique = False, df_options = []\<rparr>)],
      cx_required_columns = [], cx_unique_columns = [], cx_primary_key = None\<rparr>"
  by code_simp

lemma is_empty_rowI:
  assumes "\<forall>v \<in> set row. v = CNone \<or> (\<exists>t. v = CStr t \<and> strip t \<in> set placeholders)"
  shows "is_empty_row w (zip headers row)"
proof -
  have "set (map snd (zip headers row)) \<subseteq> set row"
    by (auto dest: set_zip_rightD)
  with assms show ?thesis
    by (auto simp: is_empty_row_def list_all_iff py_str_def dest!: set_zip_rightD)
qed


section \<open>Facts about the sheet processor and the batch coordinator\<close>

lemma rows_loop_fire:
  assumes "timeout_at elapsed r"
  shows "rows_loop w cx elapsed r (row # rows) tr errs n s =
     (Inl (ValidationTimeout (''Sheet '' @ cx_doctype cx @ '' timeout'')), s)"
proof -
  from assms have "r mod 100 = 0 \<and> elapsed r > SHEET_TIMEOUT" unfolding timeout_at_def .
  then show ?thesis by (subst rows_loop.simps) (simp only: if_True simp_thms)
qed

lemma rows_loop_step:
  assumes "\<not> timeout_at elapsed r"
  shows "rows_loop w cx elapsed r (row # rows) tr errs n s =
     (case process_row w cx tr r row s of
              (Inl e, s1) \<Rightarrow> (Inl (Exception e), s1)
            | (Inr (tr', acc), s1) \<Rightarrow>
                rows_loop w cx elapsed (Suc r) rows tr' (errs @ json_errors acc)
                  (if length (short_errors acc) > 0 then n + 1 else n) s1)"
proof -
  from assms have "\<not> (r mod 100 = 0 \<and> elapsed r > SHEET_TIMEOUT)" unfolding timeout_at_def .
  then show ?thesis by (subst rows_loop.simps) (simp only: if_False simp_thms)
qed

lemma rows_loop_timeout:
  "rows_loop w cx elapsed r rows tr errs n s = (Inl (ValidationTimeout m), s') \<Longrightarrow>
     m = ''Sheet '' @ cx_doctype cx @ '' timeout'' \<and>
     (\<exists>k. r \<le> k \<and> k < r + length rows \<and> timeout_at elapsed k)"
proof (induction rows arbitrary: r tr errs n s)
  case Nil
  then show ?case by simp
next
  case (Cons row rows)
  show ?case
  proof (cases "timeout_at elapsed r")
    case True
    from Cons.prems[unfolded rows_loop_fire[where r = r and elapsed = elapsed, OF True]]
    have "m = ''Sheet '' @ cx_doctype cx @ '' timeout''" by simp
    with True show ?thesis by (intro conjI exI[of _ r]) simp_all
  next
    case False
    note pr = Cons.prems[unfolded rows_loop_step[where r = r and elapsed = elapsed, OF False]]
    obtain res s1 where p: "process_row w cx tr r row s = (res, s1)" by force
    show ?thesis
    proof (cases res)
      case (Inl e)
      with pr p show ?thesis by simp
    next
      case (Inr ta)
      obtain tr1 and acc :: row_acc where ta: "ta = (tr1, acc)" by (cases ta)
      from pr p Inr ta
      have "rows_loop w cx elapsed (Suc r) rows tr1 (errs @ json_errors acc)
              (if length (short_errors acc) > 0 then n + 1 else n) s1 = (Inl (ValidationTimeout m), s')"
        by simp
      from Cons.IH[OF this] obtain k where k: "m = ''Sheet '' @ cx_doctype cx @ '' timeout''"
        "Suc r \<le> k" "k < Suc r + length rows" "timeout_at elapsed k"
        by blast
      then show ?thesis by (intro conjI exI[of _ k]) simp_all
    qed
  qed
qed

lemma create_error_sheetD:
  "create_error_sheet n c m s = (r, s') \<Longrightarrow>
     r = \<lparr>sr_sheet_name = n, sr_success = False, sr_error = Some c, sr_message = Some m,
          sr_error_count = 1, sr_total_rows = 0,
          sr_json_errors = [\<lparr>je_sheet = n, je_row = 0, je_column = ''Sheet'',
             je_code = get_readable_error_code c, je_message = m,
             je_value_entered = [], je_error_type = get_formatted_error_type c,
             je_suggestions = None\<rparr>]\<rparr>"
  by (auto simp: create_error_sheet_def)

lemma process_sheet_body_Inr:
  "process_sheet_body w d skip elapsed hs all_rows m s = (Inr r, s') \<Longrightarrow> sheet_outcome_ok r"
  by (auto simp: process_sheet_body_def Let_def sheet_outcome_ok_def sheet_level_codes_def
      split: if_splits prod.splits sum.splits dest!: create_error_sheetD)

lemma process_sheet_body_Inl:
  "process_sheet_body w d skip elapsed hs all_rows m s = (Inl e, s') \<Longrightarrow>
     \<exists>s1. rows_loop w \<lparr>cx_doctype = d, cx_headers = hs, cx_skip_links = skip,
                cx_field_map = build_field_map m hs,
                cx_required_columns = get_required_columns hs m,
                cx_unique_columns = get_unique_columns d hs m,
                cx_primary_key = get_primary_key d hs m\<rparr> elapsed 2 all_rows empty_tracker [] 0 s1 = (Inl e, s')"
  by (auto simp: process_sheet_body_def Let_def split: if_splits prod.splits sum.splits)

lemma process_sheet_try_Inr:
  "process_sheet_try w wb d skip elapsed s = (Inr r, s') \<Longrightarrow> sheet_outcome_ok r"
  apply (simp add: process_sheet_try_def Let_def split: option.splits list.splits if_splits sum.splits prod.splits)
  apply (auto simp: sheet_outcome_ok_def sheet_level_codes_def dest!: create_error_sheetD process_sheet_body_Inr)
  done

lemma process_sheet_try_Inl:
  "process_sheet_try w wb d skip elapsed s = (Inl (ValidationTimeout m), s') \<Longrightarrow>
     \<exists>cx s1 all_rows. cx_doctype cx = d \<and>
        rows_loop w cx elapsed 2 all_rows empty_tracker [] 0 s1 = (Inl (ValidationTimeout m), s')"
  apply (simp add: process_sheet_try_def Let_def split: option.splits list.splits if_splits sum.splits prod.splits)
  apply (drule process_sheet_body_Inl)
  apply (erule exE)
  apply (rule exI, rule conjI[rotated], rule exI, rule exI, assumption)
  apply simp
  done

lemma process_sheet_Inr:
  "process_sheet_with_validation w wb d skip elapsed s = (Inr r, s') \<Longrightarrow> sheet_outcome_ok r"
  by (auto simp: process_sheet_with_validation_def sheet_outcome_ok_def sheet_level_codes_def
      split: prod.splits sum.splits exn.splits dest!: create_error_sheetD process_sheet_try_Inr)

lemma process_sheet_Inl:
  assumes "process_sheet_with_validation w wb d skip elapsed s = (Inl e, s')"
  shows "e = ValidationTimeout (''Sheet '' @ d @ '' timeout'') \<and>
     (\<exists>k\<ge>2. timeout_at elapsed k)"
proof -
  from assms obtain m where e: "e = ValidationTimeout m"
    and t: "process_sheet_try w wb d skip elapsed s = (Inl (ValidationTimeout m), s')"
    by (auto simp: process_sheet_with_validation_def split: prod.splits sum.splits exn.splits)
  from process_sheet_try_Inl[OF t] obtain cx s1 all_rows where c: "cx_doctype cx = d"
    and l: "rows_loop w cx elapsed 2 all_rows empty_tracker [] 0 s1 = (Inl (ValidationTimeout m), s')"
    by blast
  from rows_loop_timeout[OF l] c e show ?thesis by auto
qed

lemma sheet_outcome_counted: "sheet_outcome_ok r \<Longrightarrow> counted r"
  by (auto simp: sheet_outcome_ok_def counted_def sheet_level_codes_def split: if_splits)

lemma check_doctype_cases:
  obtains s1 where "check_doctype_exists w n s = (True, s1)" | s1 where "check_doctype_exists w n s = (False, s1)"
  by (cases "check_doctype_exists w n s") (case_tac a, auto)

lemma sheet_step_unknown:
  assumes "check_doctype_exists w n s = (False, s1)"
  shows "sheet_step w wb skip idx n stats s =
     (stats\<lparr>sheet_results := sheet_results stats @
                [fst (create_error_sheet n ''DOCTYPE_NOT_FOUND'' (''DocType '' @ quoted n @ '' not found in Frappe'') s1)],
            all_json_errors := all_json_errors stats @
                sr_json_errors (fst (create_error_sheet n ''DOCTYPE_NOT_FOUND''
                   (''DocType '' @ quoted n @ '' not found in Frappe'') s1))\<rparr>,
      snd (create_error_sheet n ''DOCTYPE_NOT_FOUND'' (''DocType '' @ quoted n @ '' not found in Frappe'') s1))"
  using assms by (simp add: sheet_step_def split_beta)

lemma sheet_step_timeout:
  assumes "check_doctype_exists w n s = (True, s1)"
    and "process_sheet_with_validation w wb n skip (elapsed_sheet w idx) s1 = (Inl e, s2)"
  shows "sheet_step w wb skip idx n stats s =
     (stats\<lparr>sheet_results := sheet_results stats @
                [fst (create_error_sheet n ''TIMEOUT_ERROR'' ''Sheet processing exceeded 60s timeout'' s2)]\<rparr>,
      snd (create_error_sheet n ''TIMEOUT_ERROR'' ''Sheet processing exceeded 60s timeout'' s2))"
proof -
  from process_sheet_Inl[OF assms(2)] obtain m where "e = ValidationTimeout m" by blast
  with assms show ?thesis by (simp add: sheet_step_def split_beta)
qed

lemma sheet_step_normal:
  assumes "check_doctype_exists w n s = (True, s1)"
    and "process_sheet_with_validation w wb n skip (elapsed_sheet w idx) s1 = (Inr r, s2)"
  shows "sheet_step w wb skip idx n stats s =
     (stats\<lparr>sheet_results := sheet_results stats @ [r],
             all_json_errors := all_json_errors stats @ sr_json_errors r,
             validated_sheets := (if sr_success r then validated_sheets stats + 1
                                  else validated_sheets stats),
             total_errors := total_errors stats + sr_error_count r,
             total_rows := total_rows stats + sr_total_rows r\<rparr>, s2)"
  using assms by (simp add: sheet_step_def)

lemma create_error_sheet_fst_simps:
  "sr_error (fst (create_error_sheet n c m s)) = Some c"
  "sr_success (fst (create_error_sheet n c m s)) = False"
  "sr_error_count (fst (create_error_sheet n c m s)) = 1"
  "sr_total_rows (fst (create_error_sheet n c m s)) = 0"
  "length (sr_json_errors (fst (create_error_sheet n c m s))) = 1"
  by (simp_all add: create_error_sheet_def)

lemma sheet_step_stats_ok:
  assumes "stats_ok stats" and "sheet_step w wb skip idx n stats s = (stats', s')"
  shows "stats_ok stats'"
proof (rule check_doctype_cases[of w n s])
  fix s1 assume c: "check_doctype_exists w n s = (False, s1)"
  from assms(2)[unfolded sheet_step_unknown[OF c]] assms(1) show ?thesis
    by (auto simp: stats_ok_def counted_def create_error_sheet_fst_simps subset_iff)
next
  fix s1 assume c: "check_doctype_exists w n s = (True, s1)"
  obtain res s2 where p: "process_sheet_with_validation w wb n skip (elapsed_sheet w idx) s1 = (res, s2)"
    by force
  show ?thesis
  proof (cases res)
    case (Inl e)
    from assms(2)[unfolded sheet_step_timeout[OF c p[unfolded Inl]]] assms(1) show ?thesis
      by (auto simp: stats_ok_def counted_def create_error_sheet_fst_simps subset_iff)
  next
    case (Inr r)
    from process_sheet_Inr[OF p[unfolded Inr]] have ok: "sheet_outcome_ok r" .
    then have cr: "counted r" by (rule sheet_outcome_counted)
    then have nd: "sr_error r \<noteq> Some ''DOCTYPE_NOT_FOUND''" by (simp add: counted_def)
    from assms(2)[unfolded sheet_step_normal[OF c p[unfolded Inr]]] assms(1) cr nd show ?thesis
      by (auto simp: stats_ok_def subset_iff)
  qed
qed

lemma sheets_loop_stats_ok:
  "stats_ok stats \<Longrightarrow> sheets_loop w wb skip idx names stats s = (stats', s') \<Longrightarrow> stats_ok stats'"
proof (induction names arbitrary: idx stats s)
  case Nil
  then show ?case by simp
next
  case (Cons n names)
  show ?case
  proof (cases "elapsed_overall w idx > VALIDATION_TIMEOUT")
    case True
    with Cons.prems show ?thesis by simp
  next
    case False
    obtain st1 s1 where st: "sheet_step w wb skip idx n stats s = (st1, s1)" by force
    with Cons.prems(2) False have "sheets_loop w wb skip (Suc idx) names st1 s1 = (stats', s')" by simp
    from Cons.IH[OF sheet_step_stats_ok[OF Cons.prems(1) st] this] show ?thesis .
  qed
qed


lemma process_row_blank:
  assumes "\<forall>v \<in> set row. v = CNone \<or> (\<exists>t. v = CStr t \<and> strip t \<in> set placeholders)"
  shows "\<exists>s'. process_row w cx tr row_idx row s = (Inr (tr, empty_row_acc (cx_doctype cx) row_idx), s') \<and>
           link_cache s' = link_cache s \<and> link_cache_sizes s' = link_cache_sizes s \<and> db_log s' = db_log s"
  using is_empty_rowI[OF assms, of w "cx_headers cx"]
  by (auto simp: process_row_def validate_row_def ws_append_def split: list.splits)

lemma rows_loop_blank_prefix:
  assumes "\<forall>row \<in> set pre. \<forall>v \<in> set row. v = CNone \<or> (\<exists>t. v = CStr t \<and> strip t \<in> set placeholders)"
    and "\<forall>k. r \<le> k \<and> k < r + length pre \<longrightarrow> \<not> timeout_at elapsed k"
  shows "\<exists>errs' n' s'. rows_loop w cx elapsed r (pre @ rest) tr errs n s =
           rows_loop w cx elapsed (r + length pre) rest tr errs' n' s'"
  using assms
proof (induction pre arbitrary: r errs n s)
  case Nil
  then show ?case by auto
next
  case (Cons row pre)
  from Cons.prems(2) have nt: "\<not> timeout_at elapsed r" by simp
  from Cons.prems(1) have b: "\<forall>v \<in> set row. v = CNone \<or> (\<exists>t. v = CStr t \<and> strip t \<in> set placeholders)"
    by simp
  from process_row_blank[OF b, of w cx tr r s] obtain s1 where
    p: "process_row w cx tr r row s = (Inr (tr, empty_row_acc (cx_doctype cx) r), s1)" by blast
  have step: "rows_loop w cx elapsed r ((row # pre) @ rest) tr errs n s =
        rows_loop w cx elapsed (Suc r) (pre @ rest) tr (errs @ json_errors (empty_row_acc (cx_doctype cx) r))
          (if length (short_errors (empty_row_acc (cx_doctype cx) r)) > 0 then n + 1 else n) s1"
    unfolding append_Cons rows_loop_step[where r = r and elapsed = elapsed, OF nt] p by simp
  from Cons.prems have 1: "\<forall>row \<in> set pre. \<forall>v \<in> set row. v = CNone \<or> (\<exists>t. v = CStr t \<and> strip t \<in> set placeholders)"
    and 2: "\<forall>k. Suc r \<le> k \<and> k < Suc r + length pre \<longrightarrow> \<not> timeout_at elapsed k" by auto
  from Cons.IH[OF 1 2] step show ?case by (simp del: rows_loop.simps) 
qed

lemma ann_facts:
  "clean_header ''Name'' = ''name''"
  "strip ''Ann'' = ''Ann''"
  "strip ''Name'' = ''Name''"
  "sheet_key_of ''Student'' = ''student''"
  "lookup_field [(''name'', \<lparr>df_label = ''Name'', df_fieldname = ''name'', df_fieldtype = ''Data'',
          df_reqd = False, df_unique = False, df_options = []\<rparr>)] ''name'' ''Name'' =
     Some \<lparr>df_label = ''Name'', df_fieldname = ''name'', df_fieldtype = ''Data'',
          df_reqd = False, df_unique = False, df_options = []\<rparr>"
  "\<not> is_year_field ''name'' \<lparr>df_label = ''Name'', df_fieldname = ''name'', df_fieldtype = ''Data'',
          df_reqd = False, df_unique = False, df_options = []\<rparr> ''Name''"
  by code_simp+

lemma ann_row:
  "\<exists>tr1 acc s1. process_row w name_ctx empty_tracker 2 [CStr ''Ann''] s = (Inr (tr1, acc), s1)"
  by (simp add: process_row_def validate_row_def is_empty_row_def py_str_def ann_facts placeholders_def
        validate_cell_def link_and_type_checks_def numeric_date_checks_def Let_def name_ctx_eval
        split_beta)

lemma timeout_checks:
  "\<not> timeout_at (elapsed_sheet timeout_world 1) 2"
  "\<forall>k. 3 \<le> k \<and> k < 3 + length (replicate 97 [CNone]) \<longrightarrow> \<not> timeout_at (elapsed_sheet timeout_world 1) k"
  "timeout_at (elapsed_sheet timeout_world 1) 100"
  by (simp_all add: timeout_at_def timeout_world_def SHEET_TIMEOUT_def)

lemma timeout_rows_loop:
  "\<exists>s'. rows_loop timeout_world name_ctx (elapsed_sheet timeout_world 1) 2
          ([CStr ''Ann''] # replicate 97 [CNone] @ [[CNone]]) empty_tracker [] 0 s =
        (Inl (ValidationTimeout ''Sheet Student timeout''), s')"
proof -
  let ?el = "elapsed_sheet timeout_world 1"
  from ann_row[of timeout_world s] obtain tr1 and acc :: row_acc and s1 where
    p: "process_row timeout_world name_ctx empty_tracker 2 [CStr ''Ann''] s = (Inr (tr1, acc), s1)"
    by blast
  have 1: "rows_loop timeout_world name_ctx ?el 2
          ([CStr ''Ann''] # replicate 97 [CNone] @ [[CNone]]) empty_tracker [] 0 s =
        rows_loop timeout_world name_ctx ?el 3 (replicate 97 [CNone] @ [[CNone]]) tr1 ([] @ json_errors acc)
          (if length (short_errors acc) > 0 then 0 + 1 else 0) s1"
    unfolding rows_loop_step[where r = 2 and elapsed = ?el, OF timeout_checks(1)] p
    by (simp del: rows_loop.simps add: eval_nat_numeral)
  have b: "\<forall>row \<in> set (replicate 97 [CNone]). \<forall>v \<in> set row. v = CNone \<or> (\<exists>t. v = CStr t \<and> strip t \<in> set placeholders)"
    by simp
  from rows_loop_blank_prefix[OF b timeout_checks(2), of timeout_world name_ctx "[[CNone]]" tr1
      "[] @ json_errors acc" "if length (short_errors acc) > 0 then 0 + 1 else 0" s1]
  obtain errs' n' s' where
    2: "rows_loop timeout_world name_ctx ?el 3 (replicate 97 [CNone] @ [[CNone]]) tr1 ([] @ json_errors acc)
          (if length (short_errors acc) > 0 then 0 + 1 else 0) s1 =
        rows_loop timeout_world name_ctx ?el (3 + length (replicate 97 [CNone])) [[CNone]] tr1 errs' n' s'"
    by blast
  have 3: "rows_loop timeout_world name_ctx ?el (3 + length (replicate 97 [CNone])) [[CNone]] tr1 errs' n' s' =
        (Inl (ValidationTimeout (''Sheet '' @ cx_doctype name_ctx @ '' timeout'')), s')"
    using rows_loop_fire[where r = 100 and elapsed = ?el, OF timeout_checks(3), of timeout_world name_ctx "[CNone]" "[]" tr1 errs' n' s']
    by (simp del: rows_loop.simps)
  have d: "cx_doctype name_ctx = ''Student''" by (simp add: name_ctx_def)
  show ?thesis unfolding 1 2 3 d by simp
qed

lemma timeout_sheet_facts:
  "get_meta timeout_world ''Student'' = Inr []"
  "read_headers timeout_world [CStr ''Name''] = [''Name'']"
  "\<not> list_ex (\<lambda>h. h = CNone \<or> strip (py_str timeout_world h) = []) [CStr ''Name'']"
  "list_ex (\<lambda>c. c \<noteq> CNone \<and> strip (py_str timeout_world c) \<noteq> []) [CStr ''Ann'']"
  by (simp_all add: timeout_world_def example_world_def read_headers_def truthy_def py_str_def ann_facts)

lemma timeout_sheet:
  "\<exists>s'. process_sheet_with_validation timeout_world timeout_wb ''Student'' False
          (elapsed_sheet timeout_world 1) s =
        (Inl (ValidationTimeout ''Sheet Student timeout''), s')"
proof -
  let ?s1 = "prefetch_link_caches timeout_world ''Student'' (Some [])
      (s\<lparr>wb_output := wb_output s @ [(''Student'',
           [map CStr ([''Error Detected'', ''No. of Error'', ''DetailsMessage''] @ [''Name''])])]\<rparr>)"
  from timeout_rows_loop[of ?s1] obtain s' where
    l: "rows_loop timeout_world name_ctx (elapsed_sheet timeout_world 1) 2
          ([CStr ''Ann''] # replicate 97 [CNone] @ [[CNone]]) empty_tracker [] 0 ?s1 =
        (Inl (ValidationTimeout ''Sheet Student timeout''), s')" by blast
  have "process_sheet_try timeout_world timeout_wb ''Student'' False (elapsed_sheet timeout_world 1) s =
        (Inl (ValidationTimeout ''Sheet Student timeout''), s')"
    using l
    by (simp add: process_sheet_try_def process_sheet_body_def Let_def timeout_wb_def ann_facts
          timeout_sheet_facts name_ctx_def py_str_def del: rows_loop.simps)
  then show ?thesis by (simp add: process_sheet_with_validation_def)
qed

lemma timeout_codes:
  "get_readable_error_code ''TIMEOUT_ERROR'' = ''Processing Timeout''"
  "get_formatted_error_type ''TIMEOUT_ERROR'' = ''Processing Timeout''"
  by code_simp+

lemma timeout_run:
  "fst (validate_and_add_error_columns timeout_world timeout_wb ''0'' empty_state) =
     \<lparr>structure_valid = True, rs_total_sheets = 1, rs_validated_sheets = 0, rs_total_errors = 0,
      rs_total_rows = 0, rs_errors = [],
      rs_sheet_results =
        [\<lparr>sr_sheet_name = ''Student'', sr_success = False, sr_error = Some ''TIMEOUT_ERROR'',
          sr_message = Some ''Sheet processing exceeded 60s timeout'', sr_error_count = 1,
          sr_total_rows = 0,
          sr_json_errors =
            [\<lparr>je_sheet = ''Student'', je_row = 0, je_column = ''Sheet'',
              je_code = ''Processing Timeout'', je_message = ''Sheet processing exceeded 60s timeout'',
              je_value_entered = [], je_error_type = ''Processing Timeout'',
              je_suggestions = None\<rparr>]\<rparr>]\<rparr>"
proof -
  let ?s0 = "empty_state\<lparr>wb_output := []\<rparr>"
  let ?st0 = "\<lparr>total_sheets = length timeout_wb, validated_sheets = 0, total_errors = 0,
                    total_rows = 0, sheet_results = [], all_json_errors = []\<rparr>"
  obtain s1 where c: "check_doctype_exists timeout_world ''Student'' ?s0 = (True, s1)"
    by (simp add: check_doctype_exists_def frappe_db_exists_def timeout_world_def example_world_def)
  from timeout_sheet[of s1] obtain s2 where
    p: "process_sheet_with_validation timeout_world timeout_wb ''Student'' False
          (elapsed_sheet timeout_world 1) s1 = (Inl (ValidationTimeout ''Sheet Student timeout''), s2)"
    by blast
  have ov: "\<not> elapsed_overall timeout_world 1 > VALIDATION_TIMEOUT"
    by (simp add: timeout_world_def example_world_def VALIDATION_TIMEOUT_def)
  have "sheets_loop timeout_world timeout_wb False 1 [''Student''] ?st0 ?s0 =
      (?st0\<lparr>sheet_results := sheet_results ?st0 @
                [fst (create_error_sheet ''Student'' ''TIMEOUT_ERROR'' ''Sheet processing exceeded 60s timeout'' s2)]\<rparr>,
       snd (create_error_sheet ''Student'' ''TIMEOUT_ERROR'' ''Sheet processing exceeded 60s timeout'' s2))"
    using ov sheet_step_timeout[OF c p, of ?st0] by simp
  then show ?thesis
    by (simp add: validate_and_add_error_columns_def Let_def timeout_wb_def create_error_sheet_def timeout_codes)
qed

section \<open>Two runs against the same store\<close>






lemmas db_defs = frappe_db_exists_def frappe_db_count_def frappe_get_all_def












lemma log_update_consistent [simp]:
  "cache_consistent w (s\<lparr>db_log := l\<rparr>) = cache_consistent w s"
  "cache_consistent w (s\<lparr>wb_output := x\<rparr>) = cache_consistent w s"
  by (simp_all add: cache_consistent_def)










lemma ws_append_cache [simp]:
  "link_cache (ws_append x s) = link_cache s" "link_cache_sizes (ws_append x s) = link_cache_sizes s"
  by (simp_all add: ws_append_def split: list.splits)





















section \<open>Year fields\<close>






section \<open>The reference resolver\<close>

text \<open>
  Claim C10. \<open>link_exists\<close> returns a boolean for every entity type and candidate id and
  never raises: the answer is \<open>False\<close> when the entity type or the id is empty, when the
  entity type itself does not exist, and whenever one of the queries it sent to the
  backing store raised.
\<close>

theorem link_exists_total:
  "\<exists>b s'. link_exists w doctype name case_sensitive s = (Inr b, s') \<and>
     (doctype = [] \<or> name = [] \<longrightarrow> \<not> b \<and> s' = s) \<and>
     (db_exists w ''DocType'' doctype = Inr False \<longrightarrow> \<not> b) \<and>
     (\<forall>q \<in> set (new_queries s s'). query_raises w q \<longrightarrow> \<not> b)"
  by (auto simp: link_exists_def link_exists_try_def link_exists_populate_def link_exists_lookup_def
        db_defs new_queries_def query_raises_def Let_def
      split: sum.splits option.splits prod.splits if_splits)

theorem link_exists_total_witness:
  "\<exists>b s'. link_exists failing_world ''Country'' ''Narnia'' False empty_state = (Inr b, s') \<and>
     QExists ''DocType'' ''Country'' \<in> set (new_queries empty_state s') \<and>
     query_raises failing_world (QExists ''DocType'' ''Country'') \<and> \<not> b"
proof -
  obtain b s' where r: "link_exists failing_world ''Country'' ''Narnia'' False empty_state = (Inr b, s')"
    and q: "\<forall>q \<in> set (new_queries empty_state s'). query_raises failing_world q \<longrightarrow> \<not> b"
    using link_exists_total [of failing_world "''Country''" "''Narnia''" False empty_state] by blast
  have ev: "link_exists failing_world ''Country'' ''Narnia'' False empty_state =
              (Inr False, empty_state\<lparr>db_log := [QExists ''DocType'' ''Country'']\<rparr>)"
    by (simp add: link_exists_def link_exists_try_def db_defs failing_world_def example_world_def
          empty_state_def)
  from r ev have s': "s' = empty_state\<lparr>db_log := [QExists ''DocType'' ''Country'']\<rparr>" by simp
  have 1: "QExists ''DocType'' ''Country'' \<in> set (new_queries empty_state s')"
    by (simp add: s' new_queries_def empty_state_def)
  have 2: "query_raises failing_world (QExists ''DocType'' ''Country'')"
    by (simp add: query_raises_def failing_world_def example_world_def)
  from q 1 2 have "\<not> b" by blast
  with r 1 2 show ?thesis by blast
qed

lemma prefetch_one_other:
  "t' \<noteq> t \<Longrightarrow> link_cache (prefetch_one w t' s) t = link_cache s t \<and>
     link_cache_sizes (prefetch_one w t' s) t = link_cache_sizes s t \<and>
     (\<exists>new. db_log (prefetch_one w t' s) = db_log s @ new \<and> QGetAll t \<notin> set new)"
  by (auto simp: prefetch_one_def db_defs Let_def split: sum.splits)

lemma prefetch_one_large:
  "db_count w t = Inr n \<Longrightarrow> n > LINK_CACHE_LIMIT \<Longrightarrow>
     link_cache (prefetch_one w t s) t = link_cache s t \<and>
     link_cache_sizes (prefetch_one w t s) t = Some n \<and>
     db_log (prefetch_one w t s) = db_log s @ [QCount t]"
  by (auto simp: prefetch_one_def db_defs Let_def split: sum.splits)

lemma prefetch_loop_large:
  assumes "db_count w t = Inr n" "n > LINK_CACHE_LIMIT"
  shows "link_cache (prefetch_loop w ts s) t = link_cache s t \<and>
     (t \<in> set ts \<or> link_cache_sizes s t = Some n \<longrightarrow> link_cache_sizes (prefetch_loop w ts s) t = Some n) \<and>
     (\<exists>new. db_log (prefetch_loop w ts s) = db_log s @ new \<and> QGetAll t \<notin> set new)"
proof (induction ts arbitrary: s)
  case Nil
  then show ?case by simp
next
  case (Cons a ts)
  show ?case
  proof (cases "a = t")
    case True
    with prefetch_one_large[OF assms, of s] Cons.IH[of "prefetch_one w t s"] show ?thesis
      by auto
  next
    case False
    with prefetch_one_other[OF False, of w s] Cons.IH[of "prefetch_one w a s"] show ?thesis
      by auto
  qed
qed

lemma validate_link_large:
  assumes "link_cache s t = None" "link_cache_sizes s t = Some n" "n > LINK_CACHE_LIMIT"
    "df_options df = t" "t \<noteq> []" "truthy v" "db_exists w t (strip (py_str w v)) = Inr False"
  shows "\<exists>s2. validate_link_field w df v label row_idx False v s =
           (Inr (Some \<lparr>e_row = row_idx, e_column = label, e_code = ''LINK_NOT_FOUND'',
                       e_message = label @ '': '' @ [CHR 0x27] @ py_str w v @ [CHR 0x27] @
                                   '' not found in '' @ t,
                       e_suggestions = Some []\<rparr>), s2)
         \<and> link_cache s2 t = None
         \<and> (\<exists>new. db_log s2 = db_log s @ QExists t (strip (py_str w v)) # new \<and> QGetAll t \<notin> set new)"
  using assms
  by (auto simp: validate_link_field_def get_link_suggestions_def link_exists_def link_exists_try_def
        db_defs Let_def split: sum.splits option.splits prod.splits if_splits)

text \<open>
  Claim C3, as stated, fails when the cache still holds a materialized entry for the target
  from a time when it was within the limit: the prefetch records the size of the target
  and leaves the entry where it is, and resolving the id "Narnia", which the store does not
  have, scans that entry and returns \<open>LINK_NOT_FOUND\<close> with a suggestion taken from it.
\<close>

theorem stale_cache_entry_gives_suggestion:
  "db_count example_world ''Country'' = Inr 6000
   \<and> db_exists example_world ''Country'' ''Narnia'' = Inr False
   \<and> fst (validate_link_field example_world country_field (CStr ''Narnia'') ''Country'' 2 False
          (CStr ''Narnia'')
          (prefetch_link_caches example_world ''Student'' (Some [country_field]) stale_state)) =
       Inr (Some \<lparr>e_row = 2, e_column = ''Country'', e_code = ''LINK_NOT_FOUND'',
                  e_message = ''Country: '' @ [CHR 0x27] @ ''Narnia'' @ [CHR 0x27] @ '' not found in Country'',
                  e_suggestions = Some [''Narnia Land'']\<rparr>)"
  by code_simp

text \<open>
  Claim C3, amended. Let a reference target have more records than the cache limit (6000
  against 5000, say), with no materialized cache entry when the sheet's prefetch starts.
  After the prefetch, resolving a value that the backing store does not have sends a direct
  existence query for that value, never lists the identifiers of the target, leaves the
  target without a materialized cache entry, and yields \<open>LINK_NOT_FOUND\<close> with no
  suggestion.
\<close>

theorem large_target_link_not_found:
  assumes "df \<in> set m" and "df_fieldtype df = ''Link''" and "df_options df = t" and "t \<noteq> []"
    and "db_count w t = Inr n" and "n > LINK_CACHE_LIMIT"
    and "link_cache s0 t = None"
    and "truthy v" and "db_exists w t (strip (py_str w v)) = Inr False"
    and "s1 = prefetch_link_caches w doctype (Some m) s0"
  shows "\<exists>s2. validate_link_field w df v label row_idx False v s1 =
           (Inr (Some \<lparr>e_row = row_idx, e_column = label, e_code = ''LINK_NOT_FOUND'',
                       e_message = label @ '': '' @ [CHR 0x27] @ py_str w v @ [CHR 0x27] @
                                   '' not found in '' @ t,
                       e_suggestions = Some []\<rparr>), s2)
         \<and> QExists t (strip (py_str w v)) \<in> set (new_queries s1 s2)
         \<and> QGetAll t \<notin> set (new_queries s0 s2)
         \<and> link_cache s2 t = None"
proof -
  have mem: "t \<in> set (link_doctypes_of w m)"
    using assms(1-4) by (force simp: link_doctypes_of_def set_py_set)
  have s1: "s1 = prefetch_loop w (link_doctypes_of w m) s0"
    using assms(10) by (simp add: prefetch_link_caches_def)
  from prefetch_loop_large[OF assms(5,6), of "link_doctypes_of w m" s0] mem assms(7) s1
  obtain new1 where c1: "link_cache s1 t = None" and z1: "link_cache_sizes s1 t = Some n"
    and l1: "db_log s1 = db_log s0 @ new1" and g1: "QGetAll t \<notin> set new1"
    by auto
  from validate_link_large[OF c1 z1 assms(6) assms(3) assms(4) assms(8) assms(9), of label row_idx]
  obtain s2 new2 where
    r: "validate_link_field w df v label row_idx False v s1 =
           (Inr (Some \<lparr>e_row = row_idx, e_column = label, e_code = ''LINK_NOT_FOUND'',
                       e_message = label @ '': '' @ [CHR 0x27] @ py_str w v @ [CHR 0x27] @
                                   '' not found in '' @ t,
                       e_suggestions = Some []\<rparr>), s2)"
    and c2: "link_cache s2 t = None"
    and l2: "db_log s2 = db_log s1 @ QExists t (strip (py_str w v)) # new2"
    and g2: "QGetAll t \<notin> set new2"
    by blast
  have a: "QExists t (strip (py_str w v)) \<in> set (new_queries s1 s2)"
    by (simp add: new_queries_def l2)
  have b: "QGetAll t \<notin> set (new_queries s0 s2)"
    using g1 g2 by (simp add: new_queries_def l2 l1)
  from r a b c2 show ?thesis by blast
qed

theorem large_target_link_not_found_witness:
  "\<exists>s2. validate_link_field example_world country_field (CStr ''Narnia'') ''Country'' 2 False
           (CStr ''Narnia'') (prefetch_link_caches example_world ''Student'' (Some [country_field]) empty_state) =
           (Inr (Some \<lparr>e_row = 2, e_column = ''Country'', e_code = ''LINK_NOT_FOUND'',
                       e_message = ''Country: '' @ [CHR 0x27] @ ''Narnia'' @ [CHR 0x27] @ '' not found in Country'',
                       e_suggestions = Some []\<rparr>), s2)
         \<and> QExists ''Country'' ''Narnia'' \<in> set (new_queries
               (prefetch_link_caches example_world ''Student'' (Some [country_field]) empty_state) s2)
         \<and> QGetAll ''Country'' \<notin> set (new_queries empty_state s2)
         \<and> link_cache s2 ''Country'' = None"
proof -
  have st: "strip ''Narnia'' = ''Narnia''" by (simp add: strip_def is_space_def)
  have h: "country_field \<in> set [country_field]" "df_fieldtype country_field = ''Link''"
    "df_options country_field = ''Country''" "''Country'' \<noteq> []"
    "db_count example_world ''Country'' = Inr 6000" "6000 > LINK_CACHE_LIMIT"
    "link_cache empty_state ''Country'' = None" "truthy (CStr ''Narnia'')"
    "db_exists example_world ''Country'' (strip (py_str example_world (CStr ''Narnia''))) = Inr False"
    by (simp_all add: country_field_def example_world_def LINK_CACHE_LIMIT_def empty_state_def
          truthy_def py_str_def st)
  from large_target_link_not_found
    [where label = "''Country''" and row_idx = 2 and doctype = "''Student''", OF h refl]
  show ?thesis by (simp add: py_str_def st)
qed

section \<open>Empty rows\<close>

text \<open>
  Claim C5, as stated, fails: the mixed-case spelling "Na" is not a placeholder for the
  program, so a row whose only cell is "Na" is not an empty row; here it has no error at
  all.
\<close>

theorem mixed_case_placeholder_not_empty_row:
  "map_sum id (json_errors \<circ> snd)
     (fst (validate_row example_world name_ctx empty_tracker 2 [(''Name'', CStr ''Na'')] empty_state)) = Inr []"
  by code_simp

text \<open>
  Claim C5, amended. When every cell of a row is \<open>None\<close> or a string that, stripped of
  surrounding whitespace, is empty or exactly one of "NA", "N/A", "na", "n/a", the row's
  outcome is exactly one \<open>EMPTY_ROW\<close> error and nothing else: no other check runs, the
  duplicate tracker is unchanged and the backing store is not queried.
\<close>

theorem empty_row_single_error:
  assumes "\<forall>v \<in> set row. v = CNone \<or> (\<exists>t. v = CStr t \<and> strip t \<in> set placeholders)"
  shows "\<exists>acc s'. process_row w cx tr row_idx row s = (Inr (tr, acc), s') \<and>
           json_errors acc =
             [\<lparr>je_sheet = cx_doctype cx, je_row = row_idx, je_column = ''Entire Row'',
               je_code = ''Empty Row'', je_message = ''Row is completely empty'',
               je_value_entered = [], je_error_type = ''Empty Row'', je_suggestions = None\<rparr>] \<and>
           length (short_errors acc) = 1 \<and>
           link_cache s' = link_cache s \<and> link_cache_sizes s' = link_cache_sizes s \<and> db_log s' = db_log s"
  using process_row_blank[OF assms, of w cx tr row_idx s]
  by (auto simp: empty_row_acc_def)

theorem empty_row_single_error_witness:
  "\<exists>acc s'. process_row example_world name_ctx empty_tracker 2 [CStr '' n/a ''] empty_state =
             (Inr (empty_tracker, acc), s') \<and>
           json_errors acc =
             [\<lparr>je_sheet = ''Student'', je_row = 2, je_column = ''Entire Row'',
               je_code = ''Empty Row'', je_message = ''Row is completely empty'',
               je_value_entered = [], je_error_type = ''Empty Row'', je_suggestions = None\<rparr>] \<and>
           length (short_errors acc) = 1 \<and> db_log s' = db_log empty_state"
proof -
  have "strip '' n/a '' \<in> set placeholders"
    by (simp add: strip_def is_space_def placeholders_def)
  then have h: "\<forall>v \<in> set [CStr '' n/a '']. v = CNone \<or> (\<exists>t. v = CStr t \<and> strip t \<in> set placeholders)"
    by simp
  from empty_row_single_error [OF h, of example_world name_ctx empty_tracker 2 empty_state]
  show ?thesis by (auto simp: name_ctx_def)
qed

section \<open>Normalization in the duplicate checks\<close>

text \<open>
  Claim C4, as stated, fails: the row signature keeps a lower-case "na" as it is. In a sheet
  with the columns Name and Remarks, the row ("Ann", "na") after the row ("Ann", "") is not
  flagged as a duplicate, whereas the row ("Ann", "NA") is.
\<close>

theorem lower_case_placeholder_row_not_duplicate:
  "errors_of (rows_loop example_world remarks_ctx (\<lambda>r. 0) 2
      [[CStr ''Ann'', CStr []], [CStr ''Ann'', CStr ''na'']] empty_tracker [] 0 empty_state) = Some []
   \<and> errors_of (rows_loop example_world remarks_ctx (\<lambda>r. 0) 2
      [[CStr ''Ann'', CStr []], [CStr ''Ann'', CStr ''NA'']] empty_tracker [] 0 empty_state) =
     Some [(3, ''Entire Row'', ''Duplicate Row'')]"
  by code_simp

text \<open>
  Claim C4, amended. The whole-row signature replaces \<open>None\<close>, the empty string and
  exactly the upper-case placeholders "NA" and "N/A" by the empty string and keeps every
  other cell as its text (other spellings and whitespace-only strings included): a string
  cell at any position of a row has the empty string in the signature exactly when it is
  one of these three strings. The primary-key check normalizes a value only by stripping
  whitespace: the row is flagged exactly when its stripped text is already in the set,
  compared as it is, and the stripped text is then added.
\<close>

theorem duplicate_normalization:
  "row_signature w row_dict =
     map (\<lambda>v. if v = CNone \<or> v = CStr [] \<or> v = CStr ''NA'' \<or> v = CStr ''N/A'' then [] else py_str w v)
       (map snd row_dict)
   \<and> (\<forall>i t. i < length row_dict \<and> snd (row_dict ! i) = CStr t \<longrightarrow>
          (row_signature w row_dict ! i = []) = (t = [] \<or> t = ''NA'' \<or> t = ''N/A''))
   \<and> (\<forall>pk v. pk \<noteq> [] \<and> dict_get row_dict pk = v \<and> truthy v \<and> \<not> in_blank_tuple v \<longrightarrow>
        (\<exists>acc'. primary_key_step w doctype row_idx row_dict (Some pk) (tr, acc) =
                  (tr\<lparr>seen_primary := insert (strip (py_str w v)) (seen_primary tr)\<rparr>, acc') \<and>
                (if strip (py_str w v) \<in> seen_primary tr
                 then map je_code (json_errors acc') = map je_code (json_errors acc) @ [''Duplicate ID'']
                 else acc' = acc)))"
proof -
  have a: "row_signature w row_dict =
     map (\<lambda>v. if v = CNone \<or> v = CStr [] \<or> v = CStr ''NA'' \<or> v = CStr ''N/A'' then [] else py_str w v)
       (map snd row_dict)"
    by (auto simp: row_signature_def in_blank_tuple_def)
  have b: "\<forall>i t. i < length row_dict \<and> snd (row_dict ! i) = CStr t \<longrightarrow>
          (row_signature w row_dict ! i = []) = (t = [] \<or> t = ''NA'' \<or> t = ''N/A'')"
    unfolding a by (auto simp: py_str_def)
  have c: "\<forall>pk v. pk \<noteq> [] \<and> dict_get row_dict pk = v \<and> truthy v \<and> \<not> in_blank_tuple v \<longrightarrow>
        (\<exists>acc'. primary_key_step w doctype row_idx row_dict (Some pk) (tr, acc) =
                  (tr\<lparr>seen_primary := insert (strip (py_str w v)) (seen_primary tr)\<rparr>, acc') \<and>
                (if strip (py_str w v) \<in> seen_primary tr
                 then map je_code (json_errors acc') = map je_code (json_errors acc) @ [''Duplicate ID'']
                 else acc' = acc))"
    by (auto simp: primary_key_step_def Let_def duplicate_value_error_def get_readable_error_code_def
          ERROR_CODE_LABELS_def)
  from a b c show ?thesis by blast
qed

theorem duplicate_normalization_witness:
  "primary_key_step example_world ''Student'' 3 [(''ID'', CStr ''ABC''), (''Remarks'', CStr ''n/a'')] (Some ''ID'')
     (empty_tracker\<lparr>seen_primary := {''abc''}\<rparr>, empty_acc) =
     (empty_tracker\<lparr>seen_primary := {''ABC'', ''abc''}\<rparr>, empty_acc)
   \<and> row_signature example_world [(''ID'', CStr ''ABC''), (''Remarks'', CStr ''n/a'')] ! 1 \<noteq> []
   \<and> row_signature example_world [(''ID'', CStr ''ABC''), (''Remarks'', CStr ''N/A'')] ! 1 = []"
proof -
  let ?row = "[(''ID'', CStr ''ABC''), (''Remarks'', CStr ''n/a'')]"
  let ?row2 = "[(''ID'', CStr ''ABC''), (''Remarks'', CStr ''N/A'')]"
  have st: "strip ''ABC'' = ''ABC''" by (simp add: strip_def is_space_def)
  have h: "''ID'' \<noteq> [] \<and> dict_get ?row ''ID'' = CStr ''ABC'' \<and>
           truthy (CStr ''ABC'') \<and> \<not> in_blank_tuple (CStr ''ABC'')"
    by (simp add: dict_get_def truthy_def in_blank_tuple_def)
  note th = duplicate_normalization [of example_world ?row "''Student''" 3
      "empty_tracker\<lparr>seen_primary := {''abc''}\<rparr>" empty_acc]
  note th2 = duplicate_normalization [of example_world ?row2 "''Student''" 3 empty_tracker empty_acc]
  from th h have "\<exists>acc'. primary_key_step example_world ''Student'' 3 ?row (Some ''ID'')
          (empty_tracker\<lparr>seen_primary := {''abc''}\<rparr>, empty_acc) =
          ((empty_tracker\<lparr>seen_primary := {''abc''}\<rparr>)\<lparr>seen_primary :=
             insert (strip (py_str example_world (CStr ''ABC'')))
               (seen_primary (empty_tracker\<lparr>seen_primary := {''abc''}\<rparr>))\<rparr>, acc') \<and>
          (if strip (py_str example_world (CStr ''ABC'')) \<in> seen_primary (empty_tracker\<lparr>seen_primary := {''abc''}\<rparr>)
           then map je_code (json_errors acc') = map je_code (json_errors empty_acc) @ [''Duplicate ID'']
           else acc' = empty_acc)"
    by blast
  then have a: "primary_key_step example_world ''Student'' 3 ?row (Some ''ID'')
     (empty_tracker\<lparr>seen_primary := {''abc''}\<rparr>, empty_acc) =
     (empty_tracker\<lparr>seen_primary := {''ABC'', ''abc''}\<rparr>, empty_acc)"
    by (auto simp: py_str_def st)
  have i: "1 < length ?row \<and> snd (?row ! 1) = CStr ''n/a''" "1 < length ?row2 \<and> snd (?row2 ! 1) = CStr ''N/A''"
    by simp_all
  from th i(1) have "(row_signature example_world ?row ! 1 = []) =
                  (''n/a'' = [] \<or> ''n/a'' = ''NA'' \<or> ''n/a'' = ''N/A'')"
    by blast
  then have b: "row_signature example_world ?row ! 1 \<noteq> []" by simp
  from th2 i(2) have "(row_signature example_world ?row2 ! 1 = []) =
                  (''N/A'' = [] \<or> ''N/A'' = ''NA'' \<or> ''N/A'' = ''N/A'')"
    by blast
  then have c: "row_signature example_world ?row2 ! 1 = []" by simp
  from a b c show ?thesis by blast
qed

section \<open>Duplicate rows\<close>

text \<open>
  Claim C6. In the row loop of a sheet, which starts with an empty set of seen signatures
  and puts a row's normalized signature into the set only after it has tested it, the row
  at position \<open>i\<close> is flagged \<open>DUPLICATE_ROW\<close> exactly when an earlier row has the same
  normalized signature: the first row with a signature is never flagged, every later one
  is. The rows in question are the ones that reach the duplicate check; an entirely blank
  row is reported as an empty row before it and has no part in the tracking.
\<close>

theorem duplicate_row_flagged_from_second:
  assumes "rows_loop w cx elapsed 2 rows empty_tracker [] 0 s = (Inr (errs, n), s')"
    and "i < length rows"
  shows "duplicate_row_error (cx_doctype cx) (2 + i) \<in> set errs \<longleftrightarrow>
           \<not> is_empty_row w (zip (cx_headers cx) (rows ! i)) \<and>
           (\<exists>j<i. \<not> is_empty_row w (zip (cx_headers cx) (rows ! j)) \<and>
                  row_signature w (zip (cx_headers cx) (rows ! j)) =
                  row_signature w (zip (cx_headers cx) (rows ! i)))"
  using rows_loop_dup[OF assms(1), of "2 + i"] assms(2)
  by (auto simp: empty_tracker_def)

lemma two_anns_run:
  "errors_of (rows_loop example_world name_ctx (\<lambda>r. 0) 2 [[CStr ''Ann''], [CStr ''Ann''], [CNone]]
      empty_tracker [] 0 empty_state) =
     Some [(3, ''Entire Row'', ''Duplicate Row''), (4, ''Entire Row'', ''Empty Row'')]"
  by code_simp

theorem duplicate_row_flagged_from_second_witness:
  "\<exists>errs n s'. rows_loop example_world name_ctx (\<lambda>r. 0) 2 [[CStr ''Ann''], [CStr ''Ann''], [CNone]]
       empty_tracker [] 0 empty_state = (Inr (errs, n), s') \<and>
     duplicate_row_error ''Student'' 2 \<notin> set errs \<and>
     duplicate_row_error ''Student'' 3 \<in> set errs \<and>
     duplicate_row_error ''Student'' 4 \<notin> set errs"
proof -
  let ?rows = "[[CStr ''Ann''], [CStr ''Ann''], [CNone]]"
  from errors_of_SomeD [OF two_anns_run] obtain errs n s' where
    r: "rows_loop example_world name_ctx (\<lambda>r. 0) 2 ?rows empty_tracker [] 0 empty_state = (Inr (errs, n), s')"
    by blast
  have e: "\<not> is_empty_row example_world (zip (cx_headers name_ctx) [CStr ''Ann''])"
    "is_empty_row example_world (zip (cx_headers name_ctx) [CNone])"
    by (simp_all add: is_empty_row_def name_ctx_def py_str_def strip_def is_space_def placeholders_def)
  have d: "cx_doctype name_ctx = ''Student''" by (simp add: name_ctx_def)
  from duplicate_row_flagged_from_second [OF r, of 0] e
  have 0: "duplicate_row_error ''Student'' 2 \<notin> set errs" by (simp add: d)
  from duplicate_row_flagged_from_second [OF r, of 1] e
  have 1: "duplicate_row_error ''Student'' 3 \<in> set errs" by (simp add: d)
  from duplicate_row_flagged_from_second [OF r, of 2] e
  have 2: "duplicate_row_error ''Student'' 4 \<notin> set errs" by (simp add: d)
  from r 0 1 2 show ?thesis by blast
qed

section \<open>Blank cells of required columns\<close>

text \<open>
  Claim C2, as stated, fails: with a required column Email and the row Name = "Bob",
  Email = "", the row has two errors, both \<open>REQUIRED_FIELD_EMPTY\<close> on Email, and its error
  count is 2.
\<close>

theorem required_blank_cell_two_errors:
  "outcome_of (process_row example_world email_ctx empty_tracker 2 [CStr ''Bob'', CStr []] empty_state) =
     Some (2, [(''Email'', ''Required Field Empty''), (''Email'', ''Required Field Empty'')])"
  by code_simp

text \<open>
  Claim C2, amended. In a row that is not entirely blank, a cell holding the empty string
  gets one \<open>REQUIRED_FIELD_EMPTY\<close> error from the required-field check for each time its
  column is listed as required (the list has one entry for each required field of the schema
  that is matched to a header, and is not de-duplicated) and, unless the column is optional
  by convention, one more
  \<open>REQUIRED_FIELD_EMPTY\<close> error from the data-type pass; these are all the errors
  attributed to the column, and the row's error count is the number of its errors. For a
  column such as Email, required once, that makes exactly two errors on the column.
\<close>

theorem required_blank_cell_reported_twice:
  assumes "process_row w cx tr row_idx row s = (Inr (tr', acc), s')"
    and "distinct (cx_headers cx)"
    and "(col, CStr []) \<in> set (zip (cx_headers cx) row)"
    and "\<not> is_empty_row w (zip (cx_headers cx) row)"
    and "col \<noteq> ''Entire Row''"
  shows "filter (\<lambda>e. je_column e = col) (json_errors acc) =
           replicate (count_list (cx_required_columns cx) col) (required_error (cx_doctype cx) row_idx col) @
           (if is_optional col then []
            else [err_object w (cx_doctype cx) row_idx (zip (cx_headers cx) row)
                    (mk_error row_idx col ''REQUIRED_FIELD_EMPTY'' (''Field '' @ quoted col @ '' is empty''))])
         \<and> length (short_errors acc) = length (json_errors acc)"
proof -
  let ?rd = "zip (cx_headers cx) row" and ?d = "cx_doctype cx"
  have dist: "distinct (map fst ?rd)" using assms(2) by (simp add: map_fst_zip_take)
  have val: "dict_get ?rd col = CStr []" using dict_get_distinct[OF dist assms(3)] .
  from process_row_validate[OF assms(1)] obtain s0 where
    v: "validate_row w cx tr row_idx ?rd s = (Inr (tr', acc), s0)" by blast
  from validate_row_shape[OF v assms(4)] obtain dts kerrs where
    l: "validate_datatypes_loop w (cx_field_map cx) row_idx (cx_skip_links cx) ?rd [] s = (Inr dts, s0)"
    and je: "json_errors acc =
       map (required_error ?d row_idx)
           (filter (\<lambda>c. in_blank_tuple (dict_get ?rd c)) (cx_required_columns cx)) @
       map (err_object w ?d row_idx ?rd) dts @
       (if row_signature w ?rd \<in> seen_rows tr then [duplicate_row_error ?d row_idx] else []) @
       kerrs"
    and k: "\<forall>e \<in> set kerrs. truthy (dict_get ?rd (je_column e))"
    and len: "length (short_errors acc) = length (json_errors acc)"
    by blast
  have blank: "CStr [] = CNone \<or> strip (py_str w (CStr [])) \<in> set placeholders"
    by (simp add: py_str_def strip_def placeholders_def)
  have f2: "filter (\<lambda>e. e_column e = col) dts =
         (if \<not> is_optional col
          then [mk_error row_idx col ''REQUIRED_FIELD_EMPTY'' (''Field '' @ quoted col @ '' is empty'')]
          else [])"
    using loop_column[OF l dist assms(3) blank] by simp
  have c1: "filter (\<lambda>e. je_column e = col)
              (map (required_error ?d row_idx)
                 (filter (\<lambda>c. in_blank_tuple (dict_get ?rd c)) (cx_required_columns cx))) =
            replicate (count_list (cx_required_columns cx) col) (required_error ?d row_idx col)"
  proof -
    have "filter (\<lambda>e. je_column e = col)
              (map (required_error ?d row_idx)
                 (filter (\<lambda>c. in_blank_tuple (dict_get ?rd c)) (cx_required_columns cx))) =
          map (required_error ?d row_idx) (filter (\<lambda>c. c = col) (cx_required_columns cx))"
      using val by (induction "cx_required_columns cx")
        (auto simp: filter_map o_def required_error_def in_blank_tuple_def intro!: filter_cong arg_cong[where f = "map _"])
    then show ?thesis by (simp add: filter_eq_replicate)
  qed
  have c2: "filter (\<lambda>e. je_column e = col) (map (err_object w ?d row_idx ?rd) dts) =
            map (err_object w ?d row_idx ?rd) (filter (\<lambda>e. e_column e = col) dts)"
    by (simp add: filter_map o_def err_object_def Let_def)
  have c3: "filter (\<lambda>e. je_column e = col)
              (if row_signature w ?rd \<in> seen_rows tr then [duplicate_row_error ?d row_idx] else []) = []"
    using assms(5) by (auto simp: duplicate_row_error_def)
  have c4: "filter (\<lambda>e. je_column e = col) kerrs = []"
    using k val by (auto simp: filter_empty_conv truthy_def)
  show ?thesis
    unfolding je using len c1 c2 c3 c4 f2 by (simp add: je)
qed
theorem required_blank_cell_reported_twice_witness:
  "\<exists>tr' acc s'. process_row example_world email_ctx empty_tracker 2 [CStr ''Bob'', CStr []] empty_state =
       (Inr (tr', acc), s') \<and>
     filter (\<lambda>e. je_column e = ''Email'') (json_errors acc) =
       [required_error ''Student'' 2 ''Email'',
        err_object example_world ''Student'' 2 [(''Name'', CStr ''Bob''), (''Email'', CStr [])]
          (mk_error 2 ''Email'' ''REQUIRED_FIELD_EMPTY'' (''Field '' @ quoted ''Email'' @ '' is empty''))] \<and>
     length (short_errors acc) = length (json_errors acc)"
proof -
  from outcome_of_SomeD [OF required_blank_cell_two_errors] obtain tr' acc s' where
    r: "process_row example_world email_ctx empty_tracker 2 [CStr ''Bob'', CStr []] empty_state =
          (Inr (tr', acc), s')"
    by blast
  have cx: "cx_headers email_ctx = [''Name'', ''Email'']" "cx_doctype email_ctx = ''Student''"
    by (simp_all add: email_ctx_def)
  have req: "cx_required_columns email_ctx = [''Email'']"
    unfolding email_ctx_def by code_simp
  have opt: "\<not> is_optional ''Email''" by code_simp
  have h: "distinct (cx_headers email_ctx)"
    "(''Email'', CStr []) \<in> set (zip (cx_headers email_ctx) [CStr ''Bob'', CStr []])"
    "\<not> is_empty_row example_world (zip (cx_headers email_ctx) [CStr ''Bob'', CStr []])"
    "''Email'' \<noteq> ''Entire Row''"
    by (simp_all add: cx is_empty_row_def py_str_def strip_def is_space_def placeholders_def)
  from required_blank_cell_reported_twice [OF r h] r show ?thesis
    by (simp add: cx req opt)
qed

section \<open>Sheets that time out\<close>

text \<open>
  Claim C1, as stated, fails. In the example the budget is found used up at row index 100,
  after the rows at indices 2 to 99 have been processed, 97 of them with an error; the
  sheet's result has \<open>total_rows = 0\<close> and its only error is the sheet-level one, at row 0.
\<close>

theorem timed_out_sheet_drops_rows:
  "map sr_total_rows (rs_sheet_results
     (fst (validate_and_add_error_columns timeout_world timeout_wb ''0'' empty_state))) = [0]
   \<and> map (map je_row \<circ> sr_json_errors) (rs_sheet_results
     (fst (validate_and_add_error_columns timeout_world timeout_wb ''0'' empty_state))) = [[0]]"
  by (simp add: timeout_run)

text \<open>
  Claim C1, amended. When the processing of a sheet of a known entity type ends with the
  timeout exception, which happens only at a check at a row index divisible by 100 where
  more than the sheet's budget has elapsed, the sheet's result is the distinct timed-out
  outcome: not successful, with the error \<open>TIMEOUT_ERROR\<close>, \<open>total_rows = 0\<close>,
  \<open>error_count = 1\<close> and the one sheet-level error; nothing of the rows processed before
  the timeout is in it, and the batch's totals are unchanged.
\<close>

theorem timed_out_sheet_result:
  assumes "check_doctype_exists w sheet_name s = (True, s1)"
    and "process_sheet_with_validation w wb_input sheet_name skip_links (elapsed_sheet w sheet_idx) s1 =
           (Inl e, s2)"
  shows "\<exists>r s3. sheet_step w wb_input skip_links sheet_idx sheet_name stats s =
                  (stats\<lparr>sheet_results := sheet_results stats @ [r]\<rparr>, s3)
         \<and> \<not> sr_success r \<and> sr_error r = Some ''TIMEOUT_ERROR'' \<and> sr_total_rows r = 0
         \<and> sr_error_count r = 1
         \<and> sr_json_errors r =
             [\<lparr>je_sheet = sheet_name, je_row = 0, je_column = ''Sheet'',
               je_code = ''Processing Timeout'', je_message = ''Sheet processing exceeded 60s timeout'',
               je_value_entered = [], je_error_type = ''Processing Timeout'', je_suggestions = None\<rparr>]
         \<and> e = ValidationTimeout (''Sheet '' @ sheet_name @ '' timeout'')
         \<and> (\<exists>k\<ge>2. timeout_at (elapsed_sheet w sheet_idx) k)"
proof -
  let ?c = "create_error_sheet sheet_name ''TIMEOUT_ERROR'' ''Sheet processing exceeded 60s timeout'' s2"
  have 1: "sheet_step w wb_input skip_links sheet_idx sheet_name stats s =
             (stats\<lparr>sheet_results := sheet_results stats @ [fst ?c]\<rparr>, snd ?c)"
    by (rule sheet_step_timeout[OF assms])
  have 2: "\<not> sr_success (fst ?c)" "sr_error (fst ?c) = Some ''TIMEOUT_ERROR''"
    "sr_total_rows (fst ?c) = 0" "sr_error_count (fst ?c) = 1"
    "sr_json_errors (fst ?c) =
             [\<lparr>je_sheet = sheet_name, je_row = 0, je_column = ''Sheet'',
               je_code = ''Processing Timeout'', je_message = ''Sheet processing exceeded 60s timeout'',
               je_value_entered = [], je_error_type = ''Processing Timeout'', je_suggestions = None\<rparr>]"
    by (simp_all add: create_error_sheet_def timeout_codes)
  note 3 = process_sheet_Inl[OF assms(2)]
  from 1 2 3 show ?thesis by blast
qed

theorem timed_out_sheet_result_witness:
  "\<exists>r s3. sheet_step timeout_world timeout_wb False 1 ''Student''
             \<lparr>total_sheets = 1, validated_sheets = 0, total_errors = 0, total_rows = 0,
              sheet_results = [], all_json_errors = []\<rparr> empty_state =
             (\<lparr>total_sheets = 1, validated_sheets = 0, total_errors = 0, total_rows = 0,
               sheet_results = [r], all_json_errors = []\<rparr>, s3)
         \<and> \<not> sr_success r \<and> sr_error r = Some ''TIMEOUT_ERROR'' \<and> sr_total_rows r = 0
         \<and> sr_error_count r = 1 \<and> map je_row (sr_json_errors r) = [0]
         \<and> timeout_at (elapsed_sheet timeout_world 1) 100"
proof -
  obtain s1 where c: "check_doctype_exists timeout_world ''Student'' empty_state = (True, s1)"
    by (simp add: check_doctype_exists_def frappe_db_exists_def timeout_world_def example_world_def)
  from timeout_sheet[of s1] obtain s2 where
    p: "process_sheet_with_validation timeout_world timeout_wb ''Student'' False
          (elapsed_sheet timeout_world 1) s1 = (Inl (ValidationTimeout ''Sheet Student timeout''), s2)"
    by blast
  from timed_out_sheet_result [OF c p,
      of "\<lparr>total_sheets = 1, validated_sheets = 0, total_errors = 0, total_rows = 0,
              sheet_results = [], all_json_errors = []\<rparr>"]
  obtain r :: sheet_result and s3 where
    "sheet_step timeout_world timeout_wb False 1 ''Student''
             \<lparr>total_sheets = 1, validated_sheets = 0, total_errors = 0, total_rows = 0,
              sheet_results = [], all_json_errors = []\<rparr> empty_state =
             (\<lparr>total_sheets = 1, validated_sheets = 0, total_errors = 0, total_rows = 0,
               sheet_results = [r], all_json_errors = []\<rparr>, s3)"
    "\<not> sr_success r" "sr_error r = Some ''TIMEOUT_ERROR''" "sr_total_rows r = 0"
    "sr_error_count r = 1" "map je_row (sr_json_errors r) = [0]"
    by auto
  with timeout_checks(3) show ?thesis by (intro exI[of _ r] exI[of _ s3]) simp
qed

section \<open>The final report\<close>

text \<open>
  Claim C9 at a sheet that times out. The sheet Student of the example has a known entity
  type and is given up at the check of row index 100. Its result carries the one synthetic
  \<open>TIMEOUT_ERROR\<close>, but the flattened error list of the report is empty: the handler of the
  timeout appends the result to the sheet results and, unlike the branch for an unknown
  entity type and the branch for a processed sheet, does not extend the flattened list.
\<close>

theorem timeout_error_not_in_flattened_list:
  "rs_errors (fst (validate_and_add_error_columns timeout_world timeout_wb ''0'' empty_state)) = []
   \<and> map sr_error (rs_sheet_results
        (fst (validate_and_add_error_columns timeout_world timeout_wb ''0'' empty_state))) =
      [Some ''TIMEOUT_ERROR'']
   \<and> map (length \<circ> sr_json_errors) (rs_sheet_results
        (fst (validate_and_add_error_columns timeout_world timeout_wb ''0'' empty_state))) = [1]"
  by (simp add: timeout_run)

text \<open>
  What the report does keep, for every run: \<open>structure_valid\<close> is true exactly when the
  total error count is zero; the total is the sum of the error counts of the sheets that
  were neither of an unknown entity type nor timed out; each of those excluded sheets has
  one synthetic error; and the synthetic error of a sheet of unknown entity type is in the
  flattened error list, so that \<open>structure_valid\<close> can be true while the list is not empty.
\<close>

theorem structure_valid_and_synthetic_errors:
  assumes "validate_and_add_error_columns w wb_input skip_link_validation s = (resp, s')"
  shows "(structure_valid resp \<longleftrightarrow> rs_total_errors resp = 0)
       \<and> rs_total_errors resp = sum_list (map sr_error_count (filter counted (rs_sheet_results resp)))
       \<and> (\<forall>r \<in> set (rs_sheet_results resp). \<not> counted r \<longrightarrow>
             \<not> sr_success r \<and> sr_error_count r = 1 \<and> length (sr_json_errors r) = 1)
       \<and> (\<forall>r \<in> set (rs_sheet_results resp). sr_error r = Some ''DOCTYPE_NOT_FOUND'' \<longrightarrow>
             set (sr_json_errors r) \<subseteq> set (rs_errors resp))"
proof -
  let ?st0 = "\<lparr>total_sheets = length wb_input, validated_sheets = 0, total_errors = 0,
                    total_rows = 0, sheet_results = [], all_json_errors = []\<rparr>"
  obtain stats s1 where l: "sheets_loop w wb_input (skip_link_validation = ''1'') 1 (map fst wb_input) ?st0
      (s\<lparr>wb_output := []\<rparr>) = (stats, s1)" by force
  have "stats_ok ?st0" by (simp add: stats_ok_def)
  from sheets_loop_stats_ok[OF this l] have ok: "stats_ok stats" .
  from assms l have resp: "resp = \<lparr>structure_valid = (total_errors stats = 0),
               rs_total_sheets = total_sheets stats,
               rs_validated_sheets = validated_sheets stats,
               rs_total_errors = total_errors stats,
               rs_total_rows = total_rows stats,
               rs_errors = all_json_errors stats,
               rs_sheet_results = sheet_results stats\<rparr>"
    by (simp add: validate_and_add_error_columns_def Let_def)
  from ok show ?thesis unfolding resp stats_ok_def by simp
qed

lemma planet_run:
  "fst (validate_and_add_error_columns example_world planet_wb ''0'' empty_state) =
     \<lparr>structure_valid = True, rs_total_sheets = 1, rs_validated_sheets = 0, rs_total_errors = 0,
      rs_total_rows = 0,
      rs_errors = [\<lparr>je_sheet = ''Planet'', je_row = 0, je_column = ''Sheet'',
              je_code = ''DocType Not Found'', je_message = ''DocType '' @ quoted ''Planet'' @ '' not found in Frappe'',
              je_value_entered = [], je_error_type = ''DocType Not Found'',
              je_suggestions = None\<rparr>],
      rs_sheet_results =
        [\<lparr>sr_sheet_name = ''Planet'', sr_success = False, sr_error = Some ''DOCTYPE_NOT_FOUND'',
          sr_message = Some (''DocType '' @ quoted ''Planet'' @ '' not found in Frappe''), sr_error_count = 1,
          sr_total_rows = 0,
          sr_json_errors =
            [\<lparr>je_sheet = ''Planet'', je_row = 0, je_column = ''Sheet'',
              je_code = ''DocType Not Found'', je_message = ''DocType '' @ quoted ''Planet'' @ '' not found in Frappe'',
              je_value_entered = [], je_error_type = ''DocType Not Found'',
              je_suggestions = None\<rparr>]\<rparr>]\<rparr>"
  by code_simp

theorem structure_valid_and_synthetic_errors_witness:
  "\<exists>resp s'. validate_and_add_error_columns example_world planet_wb ''0'' empty_state = (resp, s')
     \<and> structure_valid resp \<and> rs_total_errors resp = 0
     \<and> map sr_error (rs_sheet_results resp) = [Some ''DOCTYPE_NOT_FOUND'']
     \<and> (\<forall>r \<in> set (rs_sheet_results resp). set (sr_json_errors r) \<subseteq> set (rs_errors resp))
     \<and> rs_errors resp \<noteq> []"
proof -
  obtain resp s' where
    r: "validate_and_add_error_columns example_world planet_wb ''0'' empty_state = (resp, s')"
    by force
  with planet_run have e: "map sr_error (rs_sheet_results resp) = [Some ''DOCTYPE_NOT_FOUND'']"
    "rs_errors resp \<noteq> []" "rs_total_errors resp = 0"
    by auto
  from structure_valid_and_synthetic_errors [OF r] e
  have "structure_valid resp"
    and "\<forall>r \<in> set (rs_sheet_results resp). set (sr_json_errors r) \<subseteq> set (rs_errors resp)"
    by auto
  with r e show ?thesis by (intro exI[of _ resp] exI[of _ s']) simp
qed

section \<open>Independence of the cache\<close>





end
